theory Spec2Isabelle
  imports Complex_Main "HOL-Library.Word"
begin

unbundle bit_operations_syntax

section \<open>Strings, exceptions and outcomes\<close>

text \<open>
  A Python \<open>str\<close> is a sequence of Unicode code points; it is modelled as a list of
  natural numbers, so that \<open>str.strip\<close> can follow CPython's whitespace table beyond
  ASCII. \<open>str\<close> turns a literal of the source into that representation.
\<close>

type_synonym pystr = "nat list"

definition str :: "string \<Rightarrow> pystr" where
  "str s = map of_char s"

text \<open>\<open>f"{n}"\<close> for a non-negative integer: its decimal digits.\<close>

fun dec :: "nat \<Rightarrow> pystr" where
  "dec n = (if n < 10 then [48 + n] else dec (n div 10) @ [48 + n mod 10])"

declare dec.simps [simp del]

text \<open>
  Every call into a library either returns a value or raises a Python \<open>Exception\<close>,
  which carries the text that \<open>f"{e}"\<close> prints. Asynchronous \<open>BaseException\<close>s
  (\<open>KeyboardInterrupt\<close>, \<open>SystemExit\<close>) are not raised by any statement of the
  program and are outside the model.
\<close>

datatype exn = Error (message: pystr)

datatype 'a outcome = Returns 'a | Raises exn

section \<open>Images\<close>

text \<open>
  A frame is a numpy array of shape \<open>(rows, cols, 3)\<close> and dtype \<open>uint8\<close>; a pixel is its
  three channels in OpenCV's order (blue, green, red).
\<close>

type_synonym pixel = "8 word \<times> 8 word \<times> 8 word"

record image =
  rows :: nat
  cols :: nat
  pix :: "pixel list list"

definition wf_image :: "image \<Rightarrow> bool" where
  "wf_image img \<longleftrightarrow>
     length (pix img) = rows img \<and> list_all (\<lambda>r. length r = cols img) (pix img)"

text \<open>\<open>np.zeros((r, c, 3), dtype=np.uint8)\<close> and \<open>a[:] = color\<close>.\<close>

definition zeros :: "nat \<Rightarrow> nat \<Rightarrow> image" where
  "zeros r c = \<lparr>rows = r, cols = c, pix = replicate r (replicate c (0, 0, 0))\<rparr>"

definition fill :: "pixel \<Rightarrow> image \<Rightarrow> image" where
  "fill color img = img\<lparr>pix := map (map (\<lambda>_. color)) (pix img)\<rparr>"

text \<open>
  \<open>np.vstack((a, b))\<close> of two three-channel arrays: the rows of \<open>a\<close> followed by those of
  \<open>b\<close>; numpy raises \<open>ValueError\<close> when the widths differ.
\<close>

definition vstack :: "image \<Rightarrow> image \<Rightarrow> image outcome" where
  "vstack a b =
     (if cols a = cols b
      then Returns \<lparr>rows = rows a + rows b, cols = cols a, pix = pix a @ pix b\<rparr>
      else Raises (Error (str ''ValueError'')))"

text \<open>
  Drawing with the default line type writes the drawing colour, unblended, into the
  pixels a glyph covers and leaves every other pixel as it is; the shape never changes.
\<close>

definition paint :: "(nat \<Rightarrow> nat \<Rightarrow> bool) \<Rightarrow> pixel \<Rightarrow> image \<Rightarrow> image" where
  "paint glyph color img =
     img\<lparr>pix := map (\<lambda>(r, row). map (\<lambda>(c, p). if glyph r c then color else p)
                                     (enumerate 0 row))
                    (enumerate 0 (pix img))\<rparr>"

section \<open>The libraries the program calls\<close>

text \<open>
  The libraries are parameters of the model. Functions of \<open>os\<close> and the text
  rasteriser of OpenCV depend on their arguments only; those of \<open>os\<close> that query the
  file system may raise. Calls that reach a device (window
  system, decoder, audio) may answer differently each time: they take the number of
  such calls made so far.
\<close>

record filesystem =
  expanduser :: "pystr \<Rightarrow> pystr"
  abspath :: "pystr \<Rightarrow> pystr outcome"
  path_exists :: "pystr \<Rightarrow> bool outcome"
  access_read :: "pystr \<Rightarrow> bool outcome"
  basename :: "pystr \<Rightarrow> pystr"

type_synonym box = "int \<times> int \<times> int \<times> int"

record result =
  boxes :: "box list"
  plot :: "image outcome"

record capture =
  is_opened :: bool
  frames :: "image outcome list"

record opencv =
  get_text_size :: "pystr \<Rightarrow> nat \<Rightarrow> rat \<Rightarrow> nat \<Rightarrow> int \<times> int"
  text_pixels :: "pystr \<Rightarrow> int \<times> int \<Rightarrow> nat \<Rightarrow> rat \<Rightarrow> nat \<Rightarrow> nat \<Rightarrow> nat \<Rightarrow> bool"
  named_window :: "nat \<Rightarrow> unit outcome"
  resize_window :: "nat \<Rightarrow> unit outcome"
  imread :: "pystr \<Rightarrow> nat \<Rightarrow> image option outcome"
  video_capture :: "pystr \<Rightarrow> nat \<Rightarrow> capture outcome"
  cap_release :: "nat \<Rightarrow> unit outcome"
  imshow_dev :: "nat \<Rightarrow> unit outcome"
  wait_key :: "nat \<Rightarrow> int outcome"
  destroy_all_windows :: "nat \<Rightarrow> unit outcome"

record audio =
  from_wave_file :: "nat \<Rightarrow> unit outcome"
  play :: "nat \<Rightarrow> unit outcome"
  wait_done :: "nat \<Rightarrow> unit outcome"

record env =
  os :: filesystem
  cv2 :: opencv
  sa :: audio
  yolo :: "image \<Rightarrow> result list outcome"

section \<open>The state of a run\<close>

text \<open>
  The effects of the program on the outside, in the order they happen. A device call is
  recorded when it is made, whether it then returns or raises.
\<close>

datatype event =
    Print pystr
  | NamedWindow pystr
  | ResizeWindow pystr nat nat
  | Imshow pystr image
  | DestroyAllWindows
  | VideoCapture pystr
  | Release
  | FromWaveFile pystr
  | Play
  | WaitDone

text \<open>
  numpy arrays are mutable objects passed by reference: the heap maps the address of an
  array to its contents, and \<open>next_addr\<close> is the first address not yet in use.
\<close>

record world =
  heap :: "nat \<Rightarrow> image"
  next_addr :: nat
  trace :: "event list"
  ticks :: nat

type_synonym 'a prog = "world \<Rightarrow> 'a outcome \<times> world"

definition ret :: "'a \<Rightarrow> 'a prog" where
  "ret x w = (Returns x, w)"

definition lift :: "'a outcome \<Rightarrow> 'a prog" where
  "lift r w = (r, w)"

definition andthen :: "'a prog \<Rightarrow> ('a \<Rightarrow> 'b prog) \<Rightarrow> 'b prog" where
  "andthen m k w = (case m w of (Raises e, w') \<Rightarrow> (Raises e, w') | (Returns x, w') \<Rightarrow> k x w')"

text \<open>\<open>try: m except Exception as e: h e\<close>\<close>

definition try_except :: "'a prog \<Rightarrow> (exn \<Rightarrow> 'a prog) \<Rightarrow> 'a prog" where
  "try_except m h w = (case m w of (Raises e, w') \<Rightarrow> h e w' | (Returns x, w') \<Rightarrow> (Returns x, w'))"

definition emit :: "event \<Rightarrow> world \<Rightarrow> world" where
  "emit e w = w\<lparr>trace := trace w @ [e]\<rparr>"

definition print :: "pystr \<Rightarrow> unit prog" where
  "print s w = (Returns (), emit (Print s) w)"

definition device :: "event \<Rightarrow> (nat \<Rightarrow> 'a outcome) \<Rightarrow> 'a prog" where
  "device e f w = (f (ticks w), (emit e w)\<lparr>ticks := Suc (ticks w)\<rparr>)"

definition query :: "(nat \<Rightarrow> 'a outcome) \<Rightarrow> 'a prog" where
  "query f w = (f (ticks w), w\<lparr>ticks := Suc (ticks w)\<rparr>)"

definition alloc :: "image \<Rightarrow> nat prog" where
  "alloc img w =
     (Returns (next_addr w), w\<lparr>heap := (heap w)(next_addr w := img), next_addr := Suc (next_addr w)\<rparr>)"

text \<open>The events a run added to the trace it started with.\<close>

definition new_events :: "world \<Rightarrow> world \<Rightarrow> event list" where
  "new_events w w' = drop (length (trace w)) (trace w')"

section \<open>The program\<close>

subsection \<open>\<open>create_window\<close>\<close>

definition default_window_name :: pystr where
  "default_window_name = str ''Fire and Smoke Detection System''"

definition create_window :: "env \<Rightarrow> pystr \<Rightarrow> nat \<Rightarrow> nat \<Rightarrow> pystr prog" where
  "create_window env window_name width height =
     andthen (device (NamedWindow window_name) (named_window (cv2 env))) (\<lambda>_.
     andthen (device (ResizeWindow window_name width height) (resize_window (cv2 env))) (\<lambda>_.
     ret window_name))"

subsection \<open>Array operations on the heap\<close>

text \<open>\<open>a.shape[:2]\<close>, \<open>a[:] = color\<close>, \<open>np.vstack((a, b))\<close> and \<open>cv2.putText\<close>, which
  draws into the array it is given.\<close>

definition shape :: "nat \<Rightarrow> (nat \<times> nat) prog" where
  "shape a w = (Returns (rows (heap w a), cols (heap w a)), w)"

definition assign_all :: "nat \<Rightarrow> pixel \<Rightarrow> unit prog" where
  "assign_all a color w = (Returns (), w\<lparr>heap := (heap w)(a := fill color (heap w a))\<rparr>)"

definition np_vstack :: "nat \<Rightarrow> nat \<Rightarrow> nat prog" where
  "np_vstack a b w =
     (case vstack (heap w a) (heap w b) of
        Raises e \<Rightarrow> (Raises e, w)
      | Returns img \<Rightarrow> alloc img w)"

definition FONT_HERSHEY_SIMPLEX :: nat where
  "FONT_HERSHEY_SIMPLEX = 0"

definition put_text ::
  "env \<Rightarrow> nat \<Rightarrow> pystr \<Rightarrow> int \<times> int \<Rightarrow> nat \<Rightarrow> rat \<Rightarrow> pixel \<Rightarrow> nat \<Rightarrow> unit prog" where
  "put_text env img text org font font_scale color thickness w =
     (Returns (),
      w\<lparr>heap := (heap w)
           (img := paint (text_pixels (cv2 env) text org font font_scale thickness) color
                     (heap w img))\<rparr>)"

subsection \<open>\<open>add_status_bar\<close>\<close>

definition add_status_bar :: "env \<Rightarrow> nat \<Rightarrow> pystr \<Rightarrow> bool \<Rightarrow> nat prog" where
  "add_status_bar env img status_text is_alert =
     andthen (shape img) (\<lambda>(h, w).
     andthen (alloc (zeros 60 w)) (\<lambda>status_bar.
     andthen (if is_alert
              then andthen (assign_all status_bar (0, 0, 255)) (\<lambda>_. ret (255, 255, 255))
              else andthen (assign_all status_bar (0, 255, 0)) (\<lambda>_. ret (0, 0, 0))) (\<lambda>text_color.
     let font = FONT_HERSHEY_SIMPLEX;
         font_scale = 1;
         thickness = 2;
         text_size = get_text_size (cv2 env) status_text font font_scale thickness;
         text_x = (int w - fst text_size) div 2;
         text_y = (60 + snd text_size) div 2
     in andthen (put_text env status_bar status_text (text_x, text_y) font font_scale
                   text_color thickness) (\<lambda>_.
        np_vstack img status_bar))))"

subsection \<open>\<open>add_info_overlay\<close>\<close>

text \<open>\<open>s.split(sep)\<close> for a separator of one character.\<close>

fun split_on :: "nat \<Rightarrow> pystr \<Rightarrow> pystr list" where
  "split_on sep [] = [[]]"
| "split_on sep (c # cs) =
     (if c = sep then [] # split_on sep cs
      else (case split_on sep cs of [] \<Rightarrow> [[c]] | l # ls \<Rightarrow> (c # l) # ls))"

text \<open>The \<open>for i, line in enumerate(...)\<close> loop, from index \<open>i\<close> on.\<close>

fun overlay_lines :: "env \<Rightarrow> nat \<Rightarrow> nat \<Rightarrow> pystr list \<Rightarrow> unit prog" where
  "overlay_lines env img i [] = ret ()"
| "overlay_lines env img i (line # rest) =
     (let font = FONT_HERSHEY_SIMPLEX;
          font_scale = 6 / 10;
          thickness = 1;
          padding = 10;
          y = 30 + int i * 25
      in andthen (put_text env img line (padding, y) font font_scale (255, 255, 255)
                    (thickness + 1)) (\<lambda>_.
         andthen (put_text env img line (padding, y) font font_scale (0, 0, 0) thickness) (\<lambda>_.
         overlay_lines env img (Suc i) rest)))"

definition add_info_overlay :: "env \<Rightarrow> nat \<Rightarrow> pystr \<Rightarrow> nat prog" where
  "add_info_overlay env img info_text =
     andthen (overlay_lines env img 0 (split_on 10 info_text)) (\<lambda>_. ret img)"

subsection \<open>\<open>play_alarm\<close>\<close>

definition play_alarm :: "env \<Rightarrow> unit prog" where
  "play_alarm env =
     try_except
       (andthen (device (FromWaveFile (str ''test.wav'')) (from_wave_file (sa env))) (\<lambda>wave_obj.
        andthen (device Play (play (sa env))) (\<lambda>play_obj.
        device WaitDone (wait_done (sa env)))))
       (\<lambda>e. print (str ''Error playing alarm: '' @ message e))"

subsection \<open>\<open>fix_path\<close> and \<open>check_permission\<close>\<close>

text \<open>The code points for which \<open>str.isspace\<close> holds; \<open>str.strip()\<close> removes them at both
  ends.\<close>

definition isspace :: "nat \<Rightarrow> bool" where
  "isspace c \<longleftrightarrow>
     (9 \<le> c \<and> c \<le> 13) \<or> (28 \<le> c \<and> c \<le> 32) \<or> c = 133 \<or> c = 160 \<or> c = 5760 \<or>
     (8192 \<le> c \<and> c \<le> 8202) \<or> c = 8232 \<or> c = 8233 \<or> c = 8239 \<or> c = 8287 \<or> c = 12288"

definition strip :: "pystr \<Rightarrow> pystr" where
  "strip s = rev (dropWhile isspace (rev (dropWhile isspace s)))"

text \<open>
  \<open>s.replace(old, new)\<close>: the occurrences of \<open>old\<close> are found from the left and do not
  overlap; an empty \<open>old\<close> matches before every character and at the end.
\<close>

definition startswith :: "pystr \<Rightarrow> pystr \<Rightarrow> bool" where
  "startswith s prefix \<longleftrightarrow> take (length prefix) s = prefix"

function replace :: "pystr \<Rightarrow> pystr \<Rightarrow> pystr \<Rightarrow> pystr" where
  "replace old new [] = (if old = [] then new else [])"
| "replace old new (c # cs) =
     (if old = [] then new @ c # replace old new cs
      else if startswith (c # cs) old then new @ replace old new (drop (length old) (c # cs))
      else c # replace old new cs)"
  by pat_completeness auto
termination
  by (relation "measure (\<lambda>(old, new, s). length s)") auto

definition backslash :: nat where
  "backslash = 92"

definition fix_path :: "env \<Rightarrow> pystr \<Rightarrow> pystr outcome" where
  "fix_path env path =
     (let path = strip path;
          path = replace [backslash] [] path;
          path = expanduser (os env) path
      in abspath (os env) path)"

definition check_permission :: "env \<Rightarrow> pystr \<Rightarrow> (bool \<times> pystr option) prog" where
  "check_permission env path =
     try_except
       (andthen (lift (fix_path env path)) (\<lambda>fixed_path.
        andthen (print (str ''Trying to access: '' @ fixed_path)) (\<lambda>_.
        andthen (lift (path_exists (os env) fixed_path)) (\<lambda>exists.
        if \<not> exists then
          andthen (print (str ''File not found: '' @ fixed_path)) (\<lambda>_.
          andthen (print (str ''Please check if the path is correct and the file exists''))
            (\<lambda>_. ret (False, None)))
        else
          andthen (lift (access_read (os env) fixed_path)) (\<lambda>readable.
          if \<not> readable then
            andthen (print (str ''Cannot access file: '' @ fixed_path)) (\<lambda>_.
            andthen (print (str ''Try running: chmod +r '' @ [39] @ fixed_path @ [39]))
              (\<lambda>_. ret (False, None)))
          else ret (True, Some fixed_path))))))
       (\<lambda>e. andthen (print (str ''Error checking file: '' @ message e))
               (\<lambda>_. ret (False, None)))"

subsection \<open>One frame: detection, annotation, alarm, display\<close>

text \<open>
  Lines 97-110 of \<open>process_image\<close> and lines 142-155 of \<open>process_video\<close> (and 181-194 of
  \<open>process_webcam\<close>) are the same statements; they differ in the info text only, which
  is computed without effects and is a parameter here.
\<close>

definition index0 :: "'a list \<Rightarrow> 'a outcome" where
  "index0 xs = (case xs of [] \<Rightarrow> Raises (Error (str ''list index out of range'')) | x # _ \<Rightarrow> Returns x)"

definition imshow :: "env \<Rightarrow> pystr \<Rightarrow> nat \<Rightarrow> unit prog" where
  "imshow env window_name a w = device (Imshow window_name (heap w a)) (imshow_dev (cv2 env)) w"

definition detect_and_display :: "env \<Rightarrow> pystr \<Rightarrow> pystr \<Rightarrow> image \<Rightarrow> unit prog" where
  "detect_and_display env window_name info_text frame =
     andthen (lift (yolo env frame)) (\<lambda>res.
     andthen (lift (index0 res)) (\<lambda>res0.
     let fire_detected = length (boxes res0) > 0 in
     andthen (lift (plot res0)) (\<lambda>plotted.
     andthen (alloc plotted) (\<lambda>annotated_frame.
     andthen (add_info_overlay env annotated_frame info_text) (\<lambda>annotated_frame.
     andthen (if fire_detected
              then andthen (add_status_bar env annotated_frame (str ''FIRE/SMOKE DETECTED!'') True)
                     (\<lambda>display_frame.
                   andthen (play_alarm env) (\<lambda>_. ret display_frame))
              else add_status_bar env annotated_frame (str ''No Fire Detected'') False)
       (\<lambda>display_frame.
     imshow env window_name display_frame))))))"

subsection \<open>\<open>process_video\<close>\<close>

text \<open>
  \<open>permission_result[1]\<close> is a string or \<open>None\<close>. \<open>check_permission\<close> never pairs \<open>True\<close>
  with \<open>None\<close>; were it to, the f-string would print \<open>None\<close> and the OpenCV call given
  \<open>None\<close> would raise \<open>TypeError\<close>.
\<close>

definition format_path :: "pystr option \<Rightarrow> pystr" where
  "format_path p = (case p of None \<Rightarrow> str ''None'' | Some s \<Rightarrow> s)"

definition filename_arg :: "pystr option \<Rightarrow> pystr outcome" where
  "filename_arg p = (case p of None \<Rightarrow> Raises (Error (str ''TypeError'')) | Some s \<Rightarrow> Returns s)"

text \<open>Lines 141-158: the body of the loop for one frame that was read; the result tells
  whether the escape key ended the loop.\<close>

definition video_iteration :: "env \<Rightarrow> pystr \<Rightarrow> pystr \<Rightarrow> image \<Rightarrow> nat \<Rightarrow> bool prog" where
  "video_iteration env window_name fixed_path frame frame_count =
     (let info_text = str ''File: '' @ basename (os env) fixed_path @ [10] @
                      str ''Frame: '' @ dec frame_count @ [10] @
                      str ''Press '' @ [39] @ str ''ESC'' @ [39] @ str '' to exit''
      in andthen (detect_and_display env window_name info_text frame) (\<lambda>_.
         andthen (query (wait_key (cv2 env))) (\<lambda>key.
         ret (key = 27))))"

text \<open>
  The \<open>while True\<close> loop over the frames the capture still holds: \<open>cap.read()\<close> takes the
  next one, raises, or reports \<open>ret = False\<close> when none is left.
\<close>

fun video_loop :: "env \<Rightarrow> pystr \<Rightarrow> pystr \<Rightarrow> image outcome list \<Rightarrow> nat \<Rightarrow> unit prog" where
  "video_loop env window_name fixed_path [] frame_count w = (Returns (), w)"
| "video_loop env window_name fixed_path (r # rest) frame_count w =
     (case r of
        Raises e \<Rightarrow> (Raises e, w)
      | Returns frame \<Rightarrow>
          (case video_iteration env window_name fixed_path frame (Suc frame_count) w of
             (Raises e, w') \<Rightarrow> (Raises e, w')
           | (Returns stop, w') \<Rightarrow>
               if stop then (Returns (), w')
               else video_loop env window_name fixed_path rest (Suc frame_count) w'))"

definition process_video :: "env \<Rightarrow> pystr \<Rightarrow> unit prog" where
  "process_video env video_path =
     andthen (check_permission env video_path) (\<lambda>permission_result.
     if \<not> fst permission_result then ret ()
     else
       let fixed_path = snd permission_result in
       andthen (create_window env default_window_name 1280 720) (\<lambda>window_name.
       try_except
         (andthen (lift (filename_arg fixed_path)) (\<lambda>fixed_path.
          andthen (device (VideoCapture fixed_path) (video_capture (cv2 env) fixed_path)) (\<lambda>cap.
          if \<not> is_opened cap then
            print (str ''Error: Unable to open video from '' @ fixed_path)
          else
            andthen (video_loop env window_name fixed_path (frames cap) 0) (\<lambda>_.
            andthen (device Release (cap_release (cv2 env))) (\<lambda>_.
            device DestroyAllWindows (destroy_all_windows (cv2 env)))))))
         (\<lambda>e. print (str ''Error processing video: '' @ message e))))"

subsection \<open>\<open>process_image\<close>\<close>

text \<open>Lines 91-110: the part of the \<open>try\<close> block before the polling loop; \<open>False\<close> is the early
  \<open>return\<close> taken when the image cannot be decoded.\<close>

definition load_and_display :: "env \<Rightarrow> pystr \<Rightarrow> pystr option \<Rightarrow> bool prog" where
  "load_and_display env window_name fixed_path =
     andthen (print (str ''Loading image from: '' @ format_path fixed_path)) (\<lambda>_.
     andthen (lift (filename_arg fixed_path)) (\<lambda>fixed_path.
     andthen (query (imread (cv2 env) fixed_path)) (\<lambda>img.
     case img of
       None \<Rightarrow>
         andthen (print (str ''Error: Unable to load image from '' @ fixed_path)) (\<lambda>_. ret False)
     | Some img \<Rightarrow>
         (let info_text = str ''File: '' @ basename (os env) fixed_path @ [10] @
                          str ''Press '' @ [39] @ str ''ESC'' @ [39] @ str '' to exit''
          in andthen (detect_and_display env window_name info_text img) (\<lambda>_. ret True)))))"

text \<open>
  Lines 112-115: the loop polls the keyboard until the escape key is seen, for ever if it
  never is; \<open>None\<close> is the run that does not return.
\<close>

partial_function (option) wait_for_escape :: "env \<Rightarrow> world \<Rightarrow> (unit outcome \<times> world) option" where
  "wait_for_escape env w =
     (case query (wait_key (cv2 env)) w of
        (Raises e, w') \<Rightarrow> Some (Raises e, w')
      | (Returns key, w') \<Rightarrow>
          if key AND 255 = 27 then Some (Returns (), w') else wait_for_escape env w')"

definition process_image :: "env \<Rightarrow> pystr \<Rightarrow> world \<Rightarrow> (unit outcome \<times> world) option" where
  "process_image env image_path w =
     (let handler = (\<lambda>e. print (str ''Error processing image: '' @ message e)) in
      case check_permission env image_path w of
        (Raises e, w1) \<Rightarrow> Some (Raises e, w1)
      | (Returns permission_result, w1) \<Rightarrow>
          if \<not> fst permission_result then Some (Returns (), w1)
          else
            (case create_window env default_window_name 1280 720 w1 of
               (Raises e, w2) \<Rightarrow> Some (Raises e, w2)
             | (Returns window_name, w2) \<Rightarrow>
                 (case load_and_display env window_name (snd permission_result) w2 of
                    (Raises e, w3) \<Rightarrow> Some (handler e w3)
                  | (Returns False, w3) \<Rightarrow> Some (Returns (), w3)
                  | (Returns True, w3) \<Rightarrow>
                      (case wait_for_escape env w3 of
                         None \<Rightarrow> None
                       | Some (Raises e, w4) \<Rightarrow> Some (handler e w4)
                       | Some (Returns _, w4) \<Rightarrow>
                           Some (try_except (device DestroyAllWindows (destroy_all_windows (cv2 env)))
                                   handler w4)))))"

section \<open>Reference renderings\<close>

text \<open>Colours in OpenCV's channel order (blue, green, red).\<close>

definition red :: pixel where "red = (0, 0, 255)"
definition green :: pixel where "green = (0, 255, 0)"
definition white :: pixel where "white = (255, 255, 255)"
definition black :: pixel where "black = (0, 0, 0)"

text \<open>
  The spec's centring rule: \<open>text_x = (barWidth - measuredTextWidth) / 2\<close>, with integer
  division.
\<close>

definition centred_x :: "nat \<Rightarrow> int \<Rightarrow> int" where
  "centred_x bar_width text_width = (int bar_width - text_width) div 2"

text \<open>
  The spec's status bar: 60 rows of the background colour, as wide as the frame, with the
  status text drawn in the text colour (font scale 1, thickness 2) at the centred
  horizontal position.
\<close>

definition status_bar_spec :: "env \<Rightarrow> nat \<Rightarrow> pystr \<Rightarrow> pixel \<Rightarrow> pixel \<Rightarrow> image" where
  "status_bar_spec env bar_width text background text_color =
     (let text_size = get_text_size (cv2 env) text FONT_HERSHEY_SIMPLEX 1 2;
          org = (centred_x bar_width (fst text_size), (60 + snd text_size) div 2)
      in paint (text_pixels (cv2 env) text org FONT_HERSHEY_SIMPLEX 1 2) text_color
           (fill background (zeros 60 bar_width)))"

text \<open>The last 60 rows of an image: where \<open>add_status_bar\<close> puts the bar.\<close>

definition status_rows :: "image \<Rightarrow> pixel list list" where
  "status_rows d = drop (length (pix d) - 60) (pix d)"

text \<open>
  The info overlay as a function on pixels: line \<open>i\<close> is drawn at \<open>(10, 30 + 25 i)\<close>, first in
  white with thickness 2, then in black with thickness 1.
\<close>

fun overlay_image :: "env \<Rightarrow> nat \<Rightarrow> pystr list \<Rightarrow> image \<Rightarrow> image" where
  "overlay_image env i [] im = im"
| "overlay_image env i (line # rest) im =
     overlay_image env (Suc i) rest
       (paint (text_pixels (cv2 env) line (10, 30 + int i * 25) FONT_HERSHEY_SIMPLEX (6 / 10) 1) black
          (paint (text_pixels (cv2 env) line (10, 30 + int i * 25) FONT_HERSHEY_SIMPLEX (6 / 10) 2)
             white im))"

text \<open>What a trace says about the alarm and the display.\<close>

fun is_alarm_call :: "event \<Rightarrow> bool" where
  "is_alarm_call (FromWaveFile f) = True"
| "is_alarm_call _ = False"

definition alarm_calls :: "event list \<Rightarrow> nat" where
  "alarm_calls es = length (filter is_alarm_call es)"

fun shown :: "event list \<Rightarrow> (pystr \<times> image) list" where
  "shown [] = []"
| "shown (Imshow name d # es) = (name, d) # shown es"
| "shown (_ # es) = shown es"

text \<open>A program all of whose new events satisfy \<open>P\<close>, however it ends.\<close>

definition emits_only :: "(event \<Rightarrow> bool) \<Rightarrow> 'a prog \<Rightarrow> bool" where
  "emits_only P m \<longleftrightarrow>
     (\<forall>w r w'. m w = (r, w') \<longrightarrow> (\<exists>es. trace w' = trace w @ es \<and> list_all P es))"

text \<open>The events that release what a mode holds.\<close>

fun is_cleanup :: "event \<Rightarrow> bool" where
  "is_cleanup Release = True"
| "is_cleanup DestroyAllWindows = True"
| "is_cleanup _ = False"

section \<open>The \<open>os.path\<close> of a POSIX platform\<close>

text \<open>
  \<open>os.path.expanduser\<close> and \<open>os.path.abspath\<close> belong to Python's standard library. On a
  POSIX platform they are those of \<open>posixpath\<close>, which read the variable \<open>HOME\<close>, the
  password database and the working directory; the definitions below follow that
  module statement by statement.
\<close>

record posix =
  environ_home :: "pystr option"
  pw_dir_self :: "pystr option"
  pw_dir_named :: "pystr \<Rightarrow> pystr option"
  getcwd :: "pystr outcome"

definition slash :: nat where "slash = 47"
definition tilde :: nat where "tilde = 126"
definition dot :: pystr where "dot = [46]"
definition dotdot :: pystr where "dotdot = [46, 46]"

text \<open>\<open>s.rstrip(c)\<close>, \<open>x or '/'\<close> and \<open>sep.join(parts)\<close>.\<close>

definition rstrip_char :: "nat \<Rightarrow> pystr \<Rightarrow> pystr" where
  "rstrip_char c s = rev (dropWhile (\<lambda>x. x = c) (rev s))"

definition or_root :: "pystr \<Rightarrow> pystr" where
  "or_root p = (if p = [] then [slash] else p)"

fun join_sep :: "nat \<Rightarrow> pystr list \<Rightarrow> pystr" where
  "join_sep sep [] = []"
| "join_sep sep [x] = x"
| "join_sep sep (x # y # ys) = x @ sep # join_sep sep (y # ys)"

text \<open>The home directory of the user running the program: \<open>HOME\<close> when it is set, the
  entry of the password database otherwise, which may be missing.\<close>

definition user_home :: "posix \<Rightarrow> pystr option" where
  "user_home px = (case environ_home px of None \<Rightarrow> pw_dir_self px | Some h \<Rightarrow> Some h)"

text \<open>
  \<open>posixpath.expanduser\<close>: the name between the \<open>~\<close> and the first slash selects the
  user; a path without leading \<open>~\<close>, or whose user is unknown, is returned as it is.
\<close>

definition posix_expanduser :: "posix \<Rightarrow> pystr \<Rightarrow> pystr" where
  "posix_expanduser px path =
     (if \<not> startswith path [tilde] then path
      else
        let name = takeWhile (\<lambda>c. c \<noteq> slash) (tl path);
            rest = dropWhile (\<lambda>c. c \<noteq> slash) (tl path);
            userhome = (if name = [] then user_home px else pw_dir_named px name)
        in case userhome of
             None \<Rightarrow> path
           | Some userhome \<Rightarrow> or_root (rstrip_char slash userhome @ rest))"

text \<open>
  \<open>posixpath.normpath\<close>: empty and \<open>.\<close> components are dropped and \<open>..\<close> removes the
  component before it; \<open>collapse\<close> is its loop, with the components kept so far in
  reverse.
\<close>

fun collapse :: "bool \<Rightarrow> pystr list \<Rightarrow> pystr list \<Rightarrow> pystr list" where
  "collapse rooted acc [] = rev acc"
| "collapse rooted acc (part # parts) =
     (if part = [] \<or> part = dot then collapse rooted acc parts
      else if part \<noteq> dotdot \<or> (\<not> rooted \<and> acc = []) \<or> (acc \<noteq> [] \<and> hd acc = dotdot)
        then collapse rooted (part # acc) parts
      else if acc \<noteq> [] then collapse rooted (tl acc) parts
      else collapse rooted acc parts)"

definition normpath :: "pystr \<Rightarrow> pystr" where
  "normpath path =
     (if path = [] then dot
      else
        let initial_slashes =
              (if startswith path [slash]
               then (if startswith path [slash, slash] \<and> \<not> startswith path [slash, slash, slash]
                     then 2 else 1)
               else 0 :: nat);
            parts = collapse (initial_slashes \<noteq> 0) [] (split_on slash path);
            path = replicate initial_slashes slash @ join_sep slash parts
        in if path = [] then dot else path)"

definition posix_join :: "pystr \<Rightarrow> pystr \<Rightarrow> pystr" where
  "posix_join a b =
     (if startswith b [slash] then b
      else if a = [] \<or> last a = slash then a @ b
      else a @ slash # b)"

definition posix_abspath :: "posix \<Rightarrow> pystr \<Rightarrow> pystr outcome" where
  "posix_abspath px path =
     (if \<not> startswith path [slash]
      then (case getcwd px of
              Raises e \<Rightarrow> Raises e
            | Returns cwd \<Rightarrow> Returns (normpath (posix_join cwd path)))
      else Returns (normpath path))"

section \<open>Sample environments\<close>

text \<open>
  Concrete libraries and worlds on which the theorems below are instantiated: a
  POSIX file system with home directory \<open>/home/u\<close> and working directory \<open>/work\<close>
  holding \<open>/work/fire.mp4\<close> and \<open>/work/fire.jpg\<close>, a rasteriser that draws a text as one
  row of pixels starting at its origin, devices that always answer, and a detector that
  reports one box on every frame whose first pixel is not black.
\<close>

definition sample_posix :: posix where
  "sample_posix =
     \<lparr>environ_home = Some (str ''/home/u''),
      pw_dir_self = Some (str ''/home/u''),
      pw_dir_named = (\<lambda>name. if name = str ''root'' then Some (str ''/root'') else None),
      getcwd = Returns (str ''/work'')\<rparr>"

definition sample_os :: filesystem where
  "sample_os =
     \<lparr>expanduser = posix_expanduser sample_posix,
      abspath = posix_abspath sample_posix,
      path_exists = (\<lambda>p. Returns (p = str ''/work/fire.mp4'' \<or> p = str ''/work/fire.jpg'')),
      access_read = (\<lambda>p. Returns True),
      basename = (\<lambda>p. rev (takeWhile (\<lambda>c. c \<noteq> 47) (rev p)))\<rparr>"

definition sample_cv2 :: opencv where
  "sample_cv2 =
     \<lparr>get_text_size = (\<lambda>text font font_scale thickness. (int (length text), 22)),
      text_pixels = (\<lambda>text org font font_scale thickness r c.
                       int r = snd org \<and> fst org \<le> int c \<and> int c < fst org + int (length text)),
      named_window = (\<lambda>t. Returns ()),
      resize_window = (\<lambda>t. Returns ()),
      imread = (\<lambda>p t. Returns None),
      video_capture = (\<lambda>p t. Returns \<lparr>is_opened = False, frames = []\<rparr>),
      cap_release = (\<lambda>t. Returns ()),
      imshow_dev = (\<lambda>t. Returns ()),
      wait_key = (\<lambda>t. Returns (- 1)),
      destroy_all_windows = (\<lambda>t. Returns ())\<rparr>"

definition sample_sa :: audio where
  "sample_sa =
     \<lparr>from_wave_file = (\<lambda>t. Returns ()), play = (\<lambda>t. Returns ()), wait_done = (\<lambda>t. Returns ())\<rparr>"

definition no_wave_file :: audio where
  "no_wave_file = sample_sa\<lparr>from_wave_file := (\<lambda>t. Raises (Error (str ''No such file'')))\<rparr>"

definition dark :: image where
  "dark = \<lparr>rows = 1, cols = 2, pix = [[(0, 0, 0), (0, 0, 0)]]\<rparr>"

definition flame :: image where
  "flame = \<lparr>rows = 1, cols = 2, pix = [[(0, 128, 255), (0, 0, 0)]]\<rparr>"

definition sample_yolo :: "image \<Rightarrow> result list outcome" where
  "sample_yolo frame =
     Returns [\<lparr>boxes = (if frame = dark then [] else [(0, 0, 1, 1)]), plot = Returns frame\<rparr>]"

definition sample_env :: env where
  "sample_env = \<lparr>os = sample_os, cv2 = sample_cv2, sa = sample_sa, yolo = sample_yolo\<rparr>"

definition world0 :: world where
  "world0 = \<lparr>heap = (\<lambda>a. zeros 0 0), next_addr = 0, trace = [], ticks = 0\<rparr>"

definition no_cwd :: filesystem where
  "no_cwd =
     sample_os\<lparr>abspath :=
       posix_abspath (sample_posix\<lparr>getcwd := Raises (Error (str ''No such file or directory''))\<rparr>)\<rparr>"

definition broken_access :: filesystem where
  "broken_access = sample_os\<lparr>access_read := (\<lambda>p. Raises (Error (str ''embedded null byte'')))\<rparr>"

definition raw_path :: pystr where
  "raw_path = str ''  ~/vid'' @ [92] @ str ''eo.mp4 ''"

definition canvas :: image where
  "canvas = fill (7, 7, 7) (zeros 31 12)"

definition canvas_world :: world where
  "canvas_world = world0\<lparr>heap := (heap world0)(0 := canvas), next_addr := 1\<rparr>"

definition one_frame_cv2 :: opencv where
  "one_frame_cv2 =
     sample_cv2\<lparr>video_capture := (\<lambda>p t. Returns \<lparr>is_opened = True, frames = [Returns dark]\<rparr>)\<rparr>"

definition one_frame_env :: env where
  "one_frame_env = sample_env\<lparr>cv2 := one_frame_cv2\<rparr>"

definition failing_detector_env :: env where
  "failing_detector_env =
     one_frame_env\<lparr>yolo := (\<lambda>frame. Raises (Error (str ''inference failed'')))\<rparr>"

text \<open>The worlds a run on \<open>fire.mp4\<close> or \<open>fire.jpg\<close> passes through, starting from
  \<open>world0\<close>: after validation, after the window is created, after the capture is opened.\<close>

definition validated :: "pystr \<Rightarrow> world" where
  "validated fixed_path = emit (Print (str ''Trying to access: '' @ fixed_path)) world0"

definition windowed :: "pystr \<Rightarrow> world" where
  "windowed fixed_path =
     (emit (ResizeWindow default_window_name 1280 720)
        ((emit (NamedWindow default_window_name) (validated fixed_path))\<lparr>ticks := 1\<rparr>))\<lparr>ticks := 2\<rparr>"

definition opened :: "pystr \<Rightarrow> world" where
  "opened fixed_path = (emit (VideoCapture fixed_path) (windowed fixed_path))\<lparr>ticks := 3\<rparr>"

section \<open>Basic facts about the state\<close>

lemma trace_emit [simp]: "trace (emit e w) = trace w @ [e]"
  by (simp add: emit_def)

lemma heap_emit [simp]: "heap (emit e w) = heap w"
  by (simp add: emit_def)

lemma next_addr_emit [simp]: "next_addr (emit e w) = next_addr w"
  by (simp add: emit_def)

lemma ticks_emit [simp]: "ticks (emit e w) = ticks w"
  by (simp add: emit_def)

lemma new_events_append: "trace w' = trace w @ es \<Longrightarrow> new_events w w' = es"
  by (simp add: new_events_def)

lemma new_events_self [simp]: "new_events w w = []"
  by (simp add: new_events_def)

lemma str_eq_iff [simp]: "str a = str b \<longleftrightarrow> a = b"
  by (simp add: str_def inj_on_def)

text \<open>The definitions that evaluate a path on a sample file system.\<close>

named_theorems path_eval

lemmas [path_eval] = fix_path_def strip_def isspace_def backslash_def startswith_def str_def
  posix_expanduser_def posix_abspath_def posix_join_def normpath_def user_home_def or_root_def
  rstrip_char_def slash_def tilde_def dot_def dotdot_def sample_os_def sample_posix_def Let_def

section \<open>The alarm player\<close>

lemma play_alarm_cases:
  "play_alarm env w =
     (let w1 = (emit (FromWaveFile (str ''test.wav'')) w)\<lparr>ticks := Suc (ticks w)\<rparr>;
          w2 = (emit Play w1)\<lparr>ticks := Suc (Suc (ticks w))\<rparr>;
          w3 = (emit WaitDone w2)\<lparr>ticks := Suc (Suc (Suc (ticks w)))\<rparr>;
          failed = (\<lambda>e. emit (Print (str ''Error playing alarm: '' @ message e)))
      in case from_wave_file (sa env) (ticks w) of
           Raises e \<Rightarrow> (Returns (), failed e w1)
         | Returns _ \<Rightarrow>
             (case play (sa env) (Suc (ticks w)) of
                Raises e \<Rightarrow> (Returns (), failed e w2)
              | Returns _ \<Rightarrow>
                  (case wait_done (sa env) (Suc (Suc (ticks w))) of
                     Raises e \<Rightarrow> (Returns (), failed e w3)
                   | Returns _ \<Rightarrow> (Returns (), w3))))"
  by (simp add: play_alarm_def try_except_def andthen_def device_def print_def Let_def
      split: outcome.splits)

text \<open>
  C8. \<open>play_alarm\<close> always returns normally, whatever the audio library does: when
  loading the file, starting the playback or waiting for its end raises, the exception
  is caught inside \<open>play_alarm\<close>, its text is printed after \<open>Error playing alarm: \<close>, and
  the caller continues; no image is touched.
\<close>

theorem play_alarm_never_raises:
  "\<exists>w'. play_alarm env w = (Returns (), w') \<and> heap w' = heap w \<and> next_addr w' = next_addr w \<and>
     (\<forall>e. from_wave_file (sa env) (ticks w) = Raises e \<longrightarrow>
        new_events w w' =
          [FromWaveFile (str ''test.wav''), Print (str ''Error playing alarm: '' @ message e)]) \<and>
     (\<forall>e. from_wave_file (sa env) (ticks w) = Returns () \<longrightarrow>
          play (sa env) (Suc (ticks w)) = Raises e \<longrightarrow>
        new_events w w' =
          [FromWaveFile (str ''test.wav''), Play,
           Print (str ''Error playing alarm: '' @ message e)]) \<and>
     (\<forall>e. from_wave_file (sa env) (ticks w) = Returns () \<longrightarrow>
          play (sa env) (Suc (ticks w)) = Returns () \<longrightarrow>
          wait_done (sa env) (Suc (Suc (ticks w))) = Raises e \<longrightarrow>
        new_events w w' =
          [FromWaveFile (str ''test.wav''), Play, WaitDone,
           Print (str ''Error playing alarm: '' @ message e)]) \<and>
     (from_wave_file (sa env) (ticks w) = Returns () \<longrightarrow>
          play (sa env) (Suc (ticks w)) = Returns () \<longrightarrow>
          wait_done (sa env) (Suc (Suc (ticks w))) = Returns () \<longrightarrow>
        new_events w w' = [FromWaveFile (str ''test.wav''), Play, WaitDone])"
  by (simp add: play_alarm_cases Let_def new_events_def split: outcome.splits)

theorem play_alarm_never_raises_witness:
  "from_wave_file (sa (sample_env\<lparr>sa := no_wave_file\<rparr>)) (ticks world0)
     = Raises (Error (str ''No such file'')) \<and>
   fst (play_alarm (sample_env\<lparr>sa := no_wave_file\<rparr>) world0) = Returns () \<and>
   new_events world0 (snd (play_alarm (sample_env\<lparr>sa := no_wave_file\<rparr>) world0)) =
     [FromWaveFile (str ''test.wav''),
      Print (str ''Error playing alarm: '' @ str ''No such file'')]"
  using play_alarm_never_raises [of "sample_env\<lparr>sa := no_wave_file\<rparr>" world0]
  by (auto simp add: sample_env_def no_wave_file_def sample_sa_def)

section \<open>The path resolver\<close>

lemma strip_decompose:
  "path = takeWhile isspace path @ strip path
            @ rev (takeWhile isspace (rev (dropWhile isspace path)))"
proof -
  let ?d = "dropWhile isspace path"
  have "rev (dropWhile isspace (rev ?d)) @ rev (takeWhile isspace (rev ?d))
          = rev (takeWhile isspace (rev ?d) @ dropWhile isspace (rev ?d))"
    by (simp only: rev_append)
  also have "\<dots> = rev (rev ?d)"
    by (simp only: takeWhile_dropWhile_id)
  also have "\<dots> = ?d"
    by simp
  finally have "strip path @ rev (takeWhile isspace (rev ?d)) = ?d"
    by (simp add: strip_def)
  then have "takeWhile isspace path @ strip path @ rev (takeWhile isspace (rev ?d))
               = takeWhile isspace path @ ?d"
    by simp
  then show ?thesis
    by simp
qed

lemma strip_first: "strip path \<noteq> [] \<Longrightarrow> \<not> isspace (hd (strip path))"
proof -
  assume ne: "strip path \<noteq> []"
  let ?d = "dropWhile isspace path"
  have d: "?d = strip path @ rev (takeWhile isspace (rev ?d))"
    using strip_decompose [of path] by (metis append_eq_append_conv takeWhile_dropWhile_id)
  from ne d have "hd ?d = hd (strip path)"
    by (metis hd_append2)
  moreover from ne d have "?d \<noteq> []"
    by (metis append_is_Nil_conv)
  then have "\<not> isspace (hd ?d)"
    by (rule hd_dropWhile)
  ultimately show ?thesis
    by simp
qed

lemma strip_last: "strip path \<noteq> [] \<Longrightarrow> \<not> isspace (last (strip path))"
proof -
  assume ne: "strip path \<noteq> []"
  let ?e = "dropWhile isspace (rev (dropWhile isspace path))"
  from ne have e: "?e \<noteq> []"
    by (simp add: strip_def)
  then have "\<not> isspace (hd ?e)"
    by (rule hd_dropWhile)
  moreover from e have "last (rev ?e) = hd ?e"
    by (simp add: last_rev)
  ultimately show ?thesis
    by (simp add: strip_def)
qed

lemma check_permission_cases:
  "check_permission env path w =
     (let failed = (\<lambda>e. emit (Print (str ''Error checking file: '' @ message e))) in
      case fix_path env path of
        Raises e \<Rightarrow> (Returns (False, None), failed e w)
      | Returns fixed_path \<Rightarrow>
          (let w1 = emit (Print (str ''Trying to access: '' @ fixed_path)) w in
           case path_exists (os env) fixed_path of
             Raises e \<Rightarrow> (Returns (False, None), failed e w1)
           | Returns exists \<Rightarrow>
               if \<not> exists then
                 (Returns (False, None),
                  emit (Print (str ''Please check if the path is correct and the file exists''))
                    (emit (Print (str ''File not found: '' @ fixed_path)) w1))
               else
                 (case access_read (os env) fixed_path of
                    Raises e \<Rightarrow> (Returns (False, None), failed e w1)
                  | Returns readable \<Rightarrow>
                      if \<not> readable then
                        (Returns (False, None),
                         emit (Print (str ''Try running: chmod +r '' @ [39] @ fixed_path @ [39]))
                           (emit (Print (str ''Cannot access file: '' @ fixed_path)) w1))
                      else (Returns (True, Some fixed_path), w1))))"
  by (simp add: check_permission_def try_except_def andthen_def lift_def print_def ret_def Let_def
      split: outcome.splits)

lemma fix_path_sample:
  "fix_path sample_env raw_path = Returns (str ''/home/u/video.mp4'')"
  by (simp add: sample_env_def raw_path_def path_eval)

lemma fix_path_missing:
  "fix_path sample_env (str ''nofile.mp4'') = Returns (str ''/work/nofile.mp4'')"
  by (simp add: sample_env_def path_eval)

lemma missing_not_exists:
  "path_exists (os sample_env) (str ''/work/nofile.mp4'') = Returns False"
  by (simp add: sample_env_def sample_os_def)

lemma replace_single: "replace [b] [] s = filter (\<lambda>c. c \<noteq> b) s"
  by (induction s) (auto simp add: startswith_def)

lemma expanduser_plain: "\<not> startswith s [tilde] \<Longrightarrow> posix_expanduser px s = s"
  by (simp add: posix_expanduser_def)

lemma until_slash:
  assumes "slash \<notin> set name" and "rest = [] \<or> hd rest = slash"
  shows "takeWhile (\<lambda>c. c \<noteq> slash) (name @ rest) = name"
    and "dropWhile (\<lambda>c. c \<noteq> slash) (name @ rest) = rest"
proof -
  from assms(2) have t: "takeWhile (\<lambda>c. c \<noteq> slash) rest = []"
    and d: "dropWhile (\<lambda>c. c \<noteq> slash) rest = rest"
    by (cases rest; auto)+
  from assms(1) have n: "\<forall>c \<in> set name. c \<noteq> slash"
    by auto
  from n t show "takeWhile (\<lambda>c. c \<noteq> slash) (name @ rest) = name"
    by simp
  from n d show "dropWhile (\<lambda>c. c \<noteq> slash) (name @ rest) = rest"
    by simp
qed

lemma expanduser_self:
  assumes "rest = [] \<or> hd rest = slash"
  shows "posix_expanduser px (tilde # rest) =
     (case user_home px of
        None \<Rightarrow> tilde # rest
      | Some home \<Rightarrow> or_root (rstrip_char slash home @ rest))"
  using until_slash [of "[]" rest] assms
  by (simp add: posix_expanduser_def startswith_def Let_def)

lemma expanduser_named:
  assumes "name \<noteq> []" and "slash \<notin> set name" and "rest = [] \<or> hd rest = slash"
  shows "posix_expanduser px (tilde # name @ rest) =
     (case pw_dir_named px name of
        None \<Rightarrow> tilde # name @ rest
      | Some d \<Rightarrow> or_root (rstrip_char slash d @ rest))"
  using until_slash [OF assms(2) assms(3)] assms(1)
  by (simp add: posix_expanduser_def startswith_def Let_def)

lemma startswith_slash: "startswith p [slash] \<longleftrightarrow> p \<noteq> [] \<and> hd p = slash"
  by (cases p) (simp_all add: startswith_def)

lemma normpath_absolute: "startswith p [slash] \<Longrightarrow> startswith (normpath p) [slash]"
  by (auto simp add: normpath_def startswith_slash Let_def)

lemma join_absolute: "startswith cwd [slash] \<Longrightarrow> startswith (posix_join cwd p) [slash]"
  by (auto simp add: posix_join_def startswith_slash)

lemma abspath_absolute:
  assumes "startswith s [slash] \<or> (\<exists>cwd. getcwd px = Returns cwd \<and> startswith cwd [slash])"
  shows "\<exists>p. posix_abspath px s = Returns p \<and> startswith p [slash]"
  using assms
  by (auto simp add: posix_abspath_def normpath_absolute join_absolute)

text \<open>
  C5 as stated fails for a leading \<open>~\<close> that is followed by a user name. On the sample
  POSIX system, whose user has the home directory \<open>/home/u\<close>, the path \<open>~bob/x\<close> of an
  unknown user \<open>bob\<close> is left as it is and resolves below the working directory, and
  \<open>~root/x\<close> resolves below the home directory of \<open>root\<close>.
\<close>

theorem tilde_user_is_not_home:
  "startswith (str ''~bob/x'') [tilde] \<and>
   user_home sample_posix = Some (str ''/home/u'') \<and>
   fix_path sample_env (str ''~bob/x'') = Returns (str ''/work/~bob/x'') \<and>
   \<not> startswith (str ''/work/~bob/x'') (str ''/home/u'') \<and>
   fix_path sample_env (str ''~root/x'') = Returns (str ''/root/x'') \<and>
   \<not> startswith (str ''/root/x'') (str ''/home/u'')"
  by (simp add: sample_env_def path_eval)

text \<open>
  C5, amended. \<open>fix_path\<close> performs, in order: trimming (what is cut off at both ends is
  whitespace only, and what is left neither starts nor ends with whitespace), removal
  of every backslash (all other characters are kept, in their order), \<open>expanduser\<close>,
  and \<open>abspath\<close>. On a POSIX platform, a path that after the first two steps has no
  leading \<open>~\<close> is unchanged by the third; in \<open>~\<close> alone or followed by a slash the \<open>~\<close> is
  replaced by the home directory of the user, when there is one; \<open>~name\<close> is replaced by
  the home directory of the user \<open>name\<close> and is left as it is when no such user exists.
  The result is an absolute path whenever the working directory is known, or the
  expanded path is absolute already. \<open>check_permission\<close> accepts a path exactly when
  this normalised path exists and is readable, so the existence and readability checks
  see the normalised path only.
\<close>

theorem fix_path_on_posix:
  assumes "expanduser (os env) = posix_expanduser px"
    and "abspath (os env) = posix_abspath px"
  shows "\<exists>pre trimmed post unescaped expanded.
     path = pre @ trimmed @ post \<and> list_all isspace pre \<and> list_all isspace post \<and>
     (trimmed \<noteq> [] \<longrightarrow> \<not> isspace (hd trimmed) \<and> \<not> isspace (last trimmed)) \<and>
     unescaped = filter (\<lambda>c. c \<noteq> backslash) trimmed \<and>
     expanded = posix_expanduser px unescaped \<and>
     (\<not> startswith unescaped [tilde] \<longrightarrow> expanded = unescaped) \<and>
     (\<forall>rest. unescaped = tilde # rest \<longrightarrow> rest = [] \<or> hd rest = slash \<longrightarrow>
        expanded = (case user_home px of
                      None \<Rightarrow> unescaped
                    | Some home \<Rightarrow> or_root (rstrip_char slash home @ rest))) \<and>
     (\<forall>name rest. unescaped = tilde # name @ rest \<longrightarrow> name \<noteq> [] \<longrightarrow> slash \<notin> set name \<longrightarrow>
        rest = [] \<or> hd rest = slash \<longrightarrow>
        expanded = (case pw_dir_named px name of
                      None \<Rightarrow> unescaped
                    | Some d \<Rightarrow> or_root (rstrip_char slash d @ rest))) \<and>
     fix_path env path = posix_abspath px expanded \<and>
     (startswith expanded [slash] \<or>
      (\<exists>cwd. getcwd px = Returns cwd \<and> startswith cwd [slash]) \<longrightarrow>
        (\<exists>p. fix_path env path = Returns p \<and> startswith p [slash])) \<and>
     (\<forall>p. fst (check_permission env path w) = Returns (True, Some p) \<longleftrightarrow>
        fix_path env path = Returns p \<and> path_exists (os env) p = Returns True \<and>
        access_read (os env) p = Returns True)"
proof -
  let ?pre = "takeWhile isspace path"
  let ?post = "rev (takeWhile isspace (rev (dropWhile isspace path)))"
  let ?t = "strip path"
  let ?u = "filter (\<lambda>c. c \<noteq> backslash) ?t"
  let ?e = "posix_expanduser px ?u"
  have fp: "fix_path env path = posix_abspath px ?e"
    by (simp add: fix_path_def assms replace_single)
  have dec: "path = ?pre @ ?t @ ?post"
    by (rule strip_decompose)
  have pre: "list_all isspace ?pre"
    by (simp add: list_all_iff) (meson set_takeWhileD)
  have post: "list_all isspace ?post"
    by (simp add: list_all_iff) (meson set_takeWhileD)
  have ends: "?t \<noteq> [] \<longrightarrow> \<not> isspace (hd ?t) \<and> \<not> isspace (last ?t)"
    by (simp add: strip_first strip_last)
  have plain: "\<not> startswith ?u [tilde] \<longrightarrow> ?e = ?u"
    by (simp add: expanduser_plain)
  have self: "\<forall>rest. ?u = tilde # rest \<longrightarrow> rest = [] \<or> hd rest = slash \<longrightarrow>
        ?e = (case user_home px of
                None \<Rightarrow> ?u
              | Some home \<Rightarrow> or_root (rstrip_char slash home @ rest))"
  proof (intro allI impI)
    fix rest
    assume u: "?u = tilde # rest" and r: "rest = [] \<or> hd rest = slash"
    from expanduser_self [OF r, of px] show "?e = (case user_home px of
                None \<Rightarrow> ?u
              | Some home \<Rightarrow> or_root (rstrip_char slash home @ rest))"
      by (simp only: u)
  qed
  have named: "\<forall>name rest. ?u = tilde # name @ rest \<longrightarrow> name \<noteq> [] \<longrightarrow> slash \<notin> set name \<longrightarrow>
        rest = [] \<or> hd rest = slash \<longrightarrow>
        ?e = (case pw_dir_named px name of
                None \<Rightarrow> ?u
              | Some d \<Rightarrow> or_root (rstrip_char slash d @ rest))"
  proof (intro allI impI)
    fix name rest
    assume u: "?u = tilde # name @ rest" and n: "name \<noteq> []" "slash \<notin> set name"
      and r: "rest = [] \<or> hd rest = slash"
    from expanduser_named [OF n r, of px] show "?e = (case pw_dir_named px name of
                None \<Rightarrow> ?u
              | Some d \<Rightarrow> or_root (rstrip_char slash d @ rest))"
      by (simp only: u)
  qed
  have abs: "startswith ?e [slash] \<or>
      (\<exists>cwd. getcwd px = Returns cwd \<and> startswith cwd [slash]) \<longrightarrow>
        (\<exists>p. fix_path env path = Returns p \<and> startswith p [slash])"
    using abspath_absolute [of ?e px] by (simp only: fp) blast
  have chk: "\<forall>p. fst (check_permission env path w) = Returns (True, Some p) \<longleftrightarrow>
        fix_path env path = Returns p \<and> path_exists (os env) p = Returns True \<and>
        access_read (os env) p = Returns True"
    by (auto simp add: check_permission_cases Let_def split: outcome.splits)
  show ?thesis
    apply (rule exI [of _ ?pre])
    apply (rule exI [of _ ?t])
    apply (rule exI [of _ ?post])
    apply (rule exI [of _ ?u])
    apply (rule exI [of _ ?e])
    apply (intro conjI)
    apply (rule dec)
    apply (rule pre)
    apply (rule post)
    apply (rule ends)
    apply (rule refl)
    apply (rule refl)
    apply (rule plain)
    apply (rule self)
    apply (rule named)
    apply (rule fp)
    apply (rule abs)
    apply (rule chk)
    done
qed

lemma sample_env_posix:
  "expanduser (os sample_env) = posix_expanduser sample_posix"
  "abspath (os sample_env) = posix_abspath sample_posix"
  by (simp_all add: sample_env_def sample_os_def)

theorem fix_path_on_posix_witness:
  "expanduser (os sample_env) = posix_expanduser sample_posix \<and>
   abspath (os sample_env) = posix_abspath sample_posix \<and>
   getcwd sample_posix = Returns (str ''/work'') \<and>
   startswith (str ''/work'') [slash] \<and>
   (\<exists>p. fix_path sample_env raw_path = Returns p \<and> startswith p [slash]) \<and>
   fix_path sample_env raw_path = Returns (str ''/home/u/video.mp4'')"
proof -
  have g: "getcwd sample_posix = Returns (str ''/work'')"
    by (simp add: sample_posix_def)
  have a: "startswith (str ''/work'') [slash]"
    by (simp add: startswith_def slash_def str_def)
  from g a have "\<exists>cwd. getcwd sample_posix = Returns cwd \<and> startswith cwd [slash]"
    by blast
  with fix_path_on_posix [OF sample_env_posix, of raw_path world0]
  have "\<exists>p. fix_path sample_env raw_path = Returns p \<and> startswith p [slash]"
    by blast
  with sample_env_posix g a fix_path_sample show ?thesis
    by blast
qed

text \<open>
  C9. \<open>check_permission\<close> always returns a pair and never raises: the flag is \<open>True\<close> with
  the normalised path, or \<open>False\<close> with \<open>None\<close>. An exception raised while the path is
  normalised, or by the existence check, or by the readability check, is caught, printed
  after \<open>Error checking file: \<close>, and reported as \<open>(False, None)\<close>. Only messages are
  printed; no image is touched.
\<close>

theorem check_permission_never_raises:
  "\<exists>ok p w'. check_permission env path w = (Returns (ok, p), w') \<and>
     (ok \<longrightarrow> (\<exists>fixed_path. p = Some fixed_path \<and> fix_path env path = Returns fixed_path)) \<and>
     (\<not> ok \<longrightarrow> p = None) \<and>
     (\<forall>e. fix_path env path = Raises e \<longrightarrow>
        \<not> ok \<and> new_events w w' = [Print (str ''Error checking file: '' @ message e)]) \<and>
     (\<forall>e fixed_path. fix_path env path = Returns fixed_path \<longrightarrow>
        path_exists (os env) fixed_path = Raises e \<or>
        path_exists (os env) fixed_path = Returns True \<and>
        access_read (os env) fixed_path = Raises e \<longrightarrow>
        \<not> ok \<and> new_events w w' =
          [Print (str ''Trying to access: '' @ fixed_path),
           Print (str ''Error checking file: '' @ message e)]) \<and>
     (\<forall>ev \<in> set (new_events w w'). \<exists>s. ev = Print s) \<and>
     heap w' = heap w \<and> next_addr w' = next_addr w \<and> ticks w' = ticks w"
  by (auto simp add: check_permission_cases Let_def new_events_def split: outcome.splits)

theorem check_permission_never_raises_witness:
  "fix_path (sample_env\<lparr>os := no_cwd\<rparr>) (str ''fire.mp4'')
     = Raises (Error (str ''No such file or directory'')) \<and>
   check_permission (sample_env\<lparr>os := no_cwd\<rparr>) (str ''fire.mp4'') world0 =
     (Returns (False, None),
      emit (Print (str ''Error checking file: '' @ str ''No such file or directory'')) world0) \<and>
   fix_path (sample_env\<lparr>os := broken_access\<rparr>) (str ''fire.mp4'')
     = Returns (str ''/work/fire.mp4'') \<and>
   path_exists (os (sample_env\<lparr>os := broken_access\<rparr>)) (str ''/work/fire.mp4'')
     = Returns True \<and>
   access_read (os (sample_env\<lparr>os := broken_access\<rparr>)) (str ''/work/fire.mp4'')
     = Raises (Error (str ''embedded null byte'')) \<and>
   fst (check_permission (sample_env\<lparr>os := broken_access\<rparr>) (str ''fire.mp4'') world0)
     = Returns (False, None)"
proof -
  let ?env = "sample_env\<lparr>os := no_cwd\<rparr>"
  let ?env2 = "sample_env\<lparr>os := broken_access\<rparr>"
  have f: "fix_path ?env (str ''fire.mp4'') = Raises (Error (str ''No such file or directory''))"
    by (simp add: no_cwd_def path_eval)
  obtain ok p w' where
    r: "check_permission ?env (str ''fire.mp4'') world0 = (Returns (ok, p), w')"
    and n: "\<not> ok \<longrightarrow> p = None"
    and e: "\<forall>e. fix_path ?env (str ''fire.mp4'') = Raises e \<longrightarrow>
        \<not> ok \<and> new_events world0 w' = [Print (str ''Error checking file: '' @ message e)]"
    using check_permission_never_raises [of ?env "str ''fire.mp4''" world0]
    by blast
  from f e n have "\<not> ok" and "p = None"
    by auto
  with r f have first: "check_permission ?env (str ''fire.mp4'') world0 =
     (Returns (False, None),
      emit (Print (str ''Error checking file: '' @ str ''No such file or directory'')) world0)"
    by (simp add: check_permission_cases)
  have f2: "fix_path ?env2 (str ''fire.mp4'') = Returns (str ''/work/fire.mp4'')"
    and x2: "path_exists (os ?env2) (str ''/work/fire.mp4'') = Returns True"
    and a2: "access_read (os ?env2) (str ''/work/fire.mp4'')
               = Raises (Error (str ''embedded null byte''))"
    by (simp_all add: broken_access_def path_eval)
  obtain ok2 p2 w2 where
    r2: "check_permission ?env2 (str ''fire.mp4'') world0 = (Returns (ok2, p2), w2)"
    and n2: "\<not> ok2 \<longrightarrow> p2 = None"
    and e2: "\<forall>e fixed_path. fix_path ?env2 (str ''fire.mp4'') = Returns fixed_path \<longrightarrow>
        path_exists (os ?env2) fixed_path = Raises e \<or>
        path_exists (os ?env2) fixed_path = Returns True \<and>
        access_read (os ?env2) fixed_path = Raises e \<longrightarrow>
        \<not> ok2 \<and> new_events world0 w2 =
          [Print (str ''Trying to access: '' @ fixed_path),
           Print (str ''Error checking file: '' @ message e)]"
    using check_permission_never_raises [of ?env2 "str ''fire.mp4''" world0]
    by blast
  from e2 f2 x2 a2 have "\<not> ok2"
    by blast
  with n2 r2 have second: "fst (check_permission ?env2 (str ''fire.mp4'') world0)
      = Returns (False, None)"
    by simp
  from f first f2 x2 a2 second show ?thesis
    by blast
qed

text \<open>
  C6. When the normalised form of the path does not exist, \<open>check_permission\<close> returns
  \<open>(False, None)\<close>, and \<open>process_video\<close> given that path returns at once: the console
  shows the file-not-found guidance and nothing else happens; in particular no window
  is created and no capture is opened.
\<close>

theorem missing_path_rejected:
  assumes "fix_path env path = Returns fixed_path"
    and "path_exists (os env) fixed_path = Returns False"
  shows "\<exists>w'. check_permission env path w = (Returns (False, None), w') \<and>
     process_video env path w = (Returns (), w') \<and>
     new_events w w' =
       [Print (str ''Trying to access: '' @ fixed_path),
        Print (str ''File not found: '' @ fixed_path),
        Print (str ''Please check if the path is correct and the file exists'')] \<and>
     (\<forall>name. NamedWindow name \<notin> set (new_events w w')) \<and>
     heap w' = heap w \<and> ticks w' = ticks w"
  using assms
  by (simp add: process_video_def andthen_def ret_def check_permission_cases Let_def new_events_def)

theorem missing_path_rejected_witness:
  "fix_path sample_env (str ''nofile.mp4'') = Returns (str ''/work/nofile.mp4'') \<and>
   path_exists (os sample_env) (str ''/work/nofile.mp4'') = Returns False \<and>
   (\<exists>w'. check_permission sample_env (str ''nofile.mp4'') world0 = (Returns (False, None), w') \<and>
      process_video sample_env (str ''nofile.mp4'') world0 = (Returns (), w') \<and>
      new_events world0 w' =
        [Print (str ''Trying to access: '' @ str ''/work/nofile.mp4''),
         Print (str ''File not found: '' @ str ''/work/nofile.mp4''),
         Print (str ''Please check if the path is correct and the file exists'')])"
  using missing_path_rejected [OF fix_path_missing missing_not_exists, of world0]
    fix_path_missing missing_not_exists
  by blast

section \<open>The overlay renderer\<close>

lemma rows_paint [simp]: "rows (paint g c im) = rows im"
  by (simp add: paint_def)

lemma cols_paint [simp]: "cols (paint g c im) = cols im"
  by (simp add: paint_def)

lemma map_length_pix_paint: "map length (pix (paint g c im)) = map length (pix im)"
proof -
  have "map length (pix (paint g c im)) = map (length \<circ> snd) (enumerate 0 (pix im))"
    by (simp add: paint_def comp_def case_prod_beta)
  also have "\<dots> = map length (map snd (enumerate 0 (pix im)))"
    by (simp only: map_map)
  also have "\<dots> = map length (pix im)"
    by (simp only: map_snd_enumerate)
  finally show ?thesis .
qed

lemma length_pix_paint [simp]: "length (pix (paint g c im)) = length (pix im)"
  using map_length_pix_paint [of g c im] by (metis length_map)

lemma wf_image_alt: "wf_image im \<longleftrightarrow> length (pix im) = rows im \<and> (\<forall>l \<in> set (map length (pix im)). l = cols im)"
  by (auto simp add: wf_image_def list_all_iff)

lemma wf_image_paint [simp]: "wf_image (paint g c im) = wf_image im"
  by (simp only: wf_image_alt map_length_pix_paint length_pix_paint rows_paint cols_paint)

lemma wf_image_bar [simp]: "wf_image (fill c (zeros r n))"
  by (simp add: wf_image_def fill_def zeros_def list_all_iff)

lemma status_bar_spec_shape [simp]:
  "rows (status_bar_spec env n text bg fg) = 60"
  "cols (status_bar_spec env n text bg fg) = n"
  "length (pix (status_bar_spec env n text bg fg)) = 60"
  "wf_image (status_bar_spec env n text bg fg)"
  by (simp_all add: status_bar_spec_def Let_def) (simp_all add: fill_def zeros_def)

lemma overlay_lines_run:
  "overlay_lines env img i lines w =
     (Returns (), w\<lparr>heap := (heap w)(img := overlay_image env i lines (heap w img))\<rparr>)"
proof (induction lines arbitrary: i w)
  case Nil
  show ?case by (simp add: ret_def)
next
  case (Cons line rest)
  show ?case
    by (simp add: Cons.IH andthen_def put_text_def Let_def white_def black_def numeral_2_eq_2
        cong: if_cong)
qed

lemma pix_paint_nth:
  assumes "i < length (pix im)" and "j < length (pix im ! i)"
  shows "pix (paint g c im) ! i ! j = (if g i j then c else pix im ! i ! j)"
  using assms by (simp add: paint_def nth_enumerate_eq)

lemma pix_bar_nth: "i < r \<Longrightarrow> j < n \<Longrightarrow> pix (fill c (zeros r n)) ! i ! j = c"
  by (simp add: fill_def zeros_def)

lemma add_status_bar_run:
  assumes "img \<noteq> next_addr w"
  shows "add_status_bar env img status_text is_alert w =
     (let bar = status_bar_spec env (cols (heap w img)) status_text
                  (if is_alert then red else green) (if is_alert then white else black)
      in (Returns (Suc (next_addr w)),
          w\<lparr>heap := (heap w)
                (next_addr w := bar,
                 Suc (next_addr w) :=
                   \<lparr>rows = rows (heap w img) + 60, cols = cols (heap w img),
                    pix = pix (heap w img) @ pix bar\<rparr>),
            next_addr := Suc (Suc (next_addr w))\<rparr>))"
  using assms
  by (simp add: add_status_bar_def andthen_def shape_def alloc_def assign_all_def put_text_def
      np_vstack_def vstack_def ret_def Let_def status_bar_spec_def centred_x_def
      red_def green_def white_def black_def fill_def zeros_def paint_def)

lemma add_info_overlay_run:
  "add_info_overlay env img info_text w =
     (Returns img,
      w\<lparr>heap := (heap w)(img := overlay_image env 0 (split_on 10 info_text) (heap w img))\<rparr>)"
  by (simp add: add_info_overlay_def andthen_def overlay_lines_run ret_def)

lemma length_pix_paint_nth:
  "i < length (pix im) \<Longrightarrow> length (pix (paint g c im) ! i) = length (pix im ! i)"
  using map_length_pix_paint [of g c im] by (metis length_pix_paint nth_map)

text \<open>
  C4. The status text is drawn at the horizontal position the spec's centring rule
  gives for the width of the bar (that of the frame) and the measured width of the text:
  the bar \<open>add_status_bar\<close> builds is the uniform bar with the text drawn at
  \<open>(centred_x bar_width text_width, (60 + text_height) div 2)\<close>. Integer division
  rounds down, also when the text is wider than the bar.
\<close>

theorem status_text_centred:
  assumes "img < next_addr w"
  shows "\<exists>r w'. add_status_bar env img status_text is_alert w = (Returns r, w') \<and>
     (let bar_width = cols (heap w img);
          text_size = get_text_size (cv2 env) status_text FONT_HERSHEY_SIMPLEX 1 2;
          text_x = centred_x bar_width (fst text_size);
          text_y = (60 + snd text_size) div 2
      in heap w' (next_addr w) =
           paint (text_pixels (cv2 env) status_text (text_x, text_y) FONT_HERSHEY_SIMPLEX 1 2)
             (if is_alert then white else black)
             (fill (if is_alert then red else green) (zeros 60 bar_width)))"
  using assms by (simp add: add_status_bar_run Let_def status_bar_spec_def)

theorem status_text_centred_witness:
  "0 < next_addr canvas_world \<and>
   (\<exists>r w'. add_status_bar sample_env 0 (str ''No Fire Detected'') False canvas_world
              = (Returns r, w') \<and>
      heap w' (next_addr canvas_world) =
        paint (text_pixels (cv2 sample_env) (str ''No Fire Detected'') (- 2, 41)
                 FONT_HERSHEY_SIMPLEX 1 2)
          black (fill green (zeros 60 12)))"
proof -
  have h: "0 < next_addr canvas_world"
    by (simp add: canvas_world_def)
  have c: "cols (heap canvas_world 0) = 12"
    by (simp add: canvas_world_def canvas_def fill_def zeros_def)
  have s: "get_text_size (cv2 sample_env) (str ''No Fire Detected'') FONT_HERSHEY_SIMPLEX 1 2
             = (16, 22)"
    by (simp add: sample_env_def sample_cv2_def str_def)
  show ?thesis
    using status_text_centred [OF h, of sample_env "str ''No Fire Detected''" False] h
    by (simp add: c s Let_def centred_x_def)
qed

text \<open>
  C7. For an image of \<open>h\<close> rows and \<open>w\<close> columns, \<open>add_status_bar\<close> returns an image of
  \<open>h + 60\<close> rows and \<open>w\<close> columns. Its first \<open>h\<close> rows are the input image. In the last 60
  rows every pixel covered by the status text is white and every other pixel red when
  \<open>is_alert\<close> holds; otherwise the text is black on green.
\<close>

theorem status_bar_appended:
  assumes "img < next_addr w" and "wf_image (heap w img)"
  shows "\<exists>r w'. add_status_bar env img status_text is_alert w = (Returns r, w') \<and>
     rows (heap w' r) = rows (heap w img) + 60 \<and>
     cols (heap w' r) = cols (heap w img) \<and>
     wf_image (heap w' r) \<and>
     take (rows (heap w img)) (pix (heap w' r)) = pix (heap w img) \<and>
     (\<exists>org. \<forall>i<60. \<forall>j<cols (heap w img).
        pix (heap w' r) ! (rows (heap w img) + i) ! j =
          (if text_pixels (cv2 env) status_text org FONT_HERSHEY_SIMPLEX 1 2 i j
           then (if is_alert then white else black)
           else (if is_alert then red else green)))"
proof -
  let ?I = "heap w img"
  let ?bg = "if is_alert then red else green"
  let ?fg = "if is_alert then white else black"
  let ?sz = "get_text_size (cv2 env) status_text FONT_HERSHEY_SIMPLEX 1 2"
  let ?org = "(centred_x (cols ?I) (fst ?sz), (60 + snd ?sz) div 2)"
  let ?g = "text_pixels (cv2 env) status_text ?org FONT_HERSHEY_SIMPLEX 1 2"
  let ?bar = "status_bar_spec env (cols ?I) status_text ?bg ?fg"
  let ?R = "\<lparr>rows = rows ?I + 60, cols = cols ?I, pix = pix ?I @ pix ?bar\<rparr>"
  let ?w' = "w\<lparr>heap := (heap w)(next_addr w := ?bar, Suc (next_addr w) := ?R),
               next_addr := Suc (Suc (next_addr w))\<rparr>"
  from assms(1) have run:
    "add_status_bar env img status_text is_alert w = (Returns (Suc (next_addr w)), ?w')"
    by (simp add: add_status_bar_run Let_def)
  have res: "heap ?w' (Suc (next_addr w)) = ?R"
    by simp
  from assms(2) have len: "length (pix ?I) = rows ?I"
    and row: "\<forall>r \<in> set (pix ?I). length r = cols ?I"
    by (simp_all add: wf_image_def list_all_iff)
  have barwf: "wf_image ?bar"
    by simp
  then have barrow: "\<forall>r \<in> set (pix ?bar). length r = cols ?I"
    by (simp add: wf_image_def list_all_iff)
  have wf: "wf_image ?R"
    using len row barrow by (auto simp add: wf_image_def list_all_iff)
  have top: "take (rows ?I) (pix ?R) = pix ?I"
    using len by simp
  have bar: "?bar = paint ?g ?fg (fill ?bg (zeros 60 (cols ?I)))"
    by (simp add: status_bar_spec_def Let_def)
  have px: "\<forall>i<60. \<forall>j<cols ?I.
      pix ?R ! (rows ?I + i) ! j = (if ?g i j then ?fg else ?bg)"
  proof (intro allI impI)
    fix i j
    assume i: "i < (60::nat)" and j: "j < cols ?I"
    have "pix ?R ! (rows ?I + i) = pix ?bar ! i"
      using len by (simp add: nth_append)
    moreover have "pix ?bar ! i ! j =
        (if ?g i j then ?fg else pix (fill ?bg (zeros 60 (cols ?I))) ! i ! j)"
      unfolding bar using i j by (intro pix_paint_nth) (simp_all add: fill_def zeros_def)
    moreover have "pix (fill ?bg (zeros 60 (cols ?I))) ! i ! j = ?bg"
      using i j by (rule pix_bar_nth)
    ultimately show "pix ?R ! (rows ?I + i) ! j = (if ?g i j then ?fg else ?bg)"
      by simp
  qed
  have "rows (heap ?w' (Suc (next_addr w))) = rows ?I + 60"
    and "cols (heap ?w' (Suc (next_addr w))) = cols ?I"
    by simp_all
  moreover have "wf_image (heap ?w' (Suc (next_addr w)))"
    using wf by (simp only: res)
  moreover have "take (rows ?I) (pix (heap ?w' (Suc (next_addr w)))) = pix ?I"
    using top by (simp only: res)
  moreover have "\<exists>org. \<forall>i<60. \<forall>j<cols ?I.
      pix (heap ?w' (Suc (next_addr w))) ! (rows ?I + i) ! j =
        (if text_pixels (cv2 env) status_text org FONT_HERSHEY_SIMPLEX 1 2 i j
         then ?fg else ?bg)"
    using px by (simp only: res) blast
  ultimately show ?thesis
    using run by blast
qed

lemma canvas_wf: "wf_image (heap canvas_world 0)"
  by (simp add: canvas_world_def canvas_def)

theorem status_bar_appended_witness:
  "0 < next_addr canvas_world \<and> wf_image (heap canvas_world 0) \<and>
   (\<exists>r w'. add_status_bar sample_env 0 (str ''FIRE/SMOKE DETECTED!'') True canvas_world
              = (Returns r, w') \<and>
      rows (heap w' r) = 91 \<and> cols (heap w' r) = 12 \<and> wf_image (heap w' r) \<and>
      take 31 (pix (heap w' r)) = pix canvas)"
proof -
  have h: "0 < next_addr canvas_world"
    by (simp add: canvas_world_def)
  have c: "heap canvas_world 0 = canvas" "rows canvas = 31" "cols canvas = 12"
    by (simp_all add: canvas_world_def canvas_def fill_def zeros_def)
  show ?thesis
    using status_bar_appended [OF h canvas_wf, of sample_env "str ''FIRE/SMOKE DETECTED!''" True]
      h canvas_wf
    by (simp add: c) blast
qed

text \<open>
  C3 as stated fails for \<open>add_info_overlay\<close>: on a grey canvas it returns the address it
  was given, not a new image, and the pixel at row 30, column 10 of the input has changed.
\<close>

theorem add_info_overlay_mutates_input:
  "fst (add_info_overlay sample_env 0 (str ''A'') canvas_world) = Returns 0 \<and>
   pix (heap canvas_world 0) ! 30 ! 10 = (7, 7, 7) \<and>
   pix (heap (snd (add_info_overlay sample_env 0 (str ''A'') canvas_world)) 0) ! 30 ! 10 = (0, 0, 0)"
proof -
  let ?g1 = "text_pixels (cv2 sample_env) (str ''A'') (10, 30 + int 0 * 25)
               FONT_HERSHEY_SIMPLEX (6 / 10) 1"
  let ?g2 = "text_pixels (cv2 sample_env) (str ''A'') (10, 30 + int 0 * 25)
               FONT_HERSHEY_SIMPLEX (6 / 10) 2"
  have c: "heap canvas_world 0 = canvas"
    by (simp add: canvas_world_def)
  have l: "length (pix canvas) = 31" "length (pix canvas ! 30) = 12"
    by (simp_all add: canvas_def fill_def zeros_def)
  have before: "pix canvas ! 30 ! 10 = (7, 7, 7)"
    by (simp add: canvas_def fill_def zeros_def)
  have lines: "split_on 10 (str ''A'') = [str ''A'']"
    by (simp add: str_def)
  have after: "heap (snd (add_info_overlay sample_env 0 (str ''A'') canvas_world)) 0
      = paint ?g1 black (paint ?g2 white canvas)"
    by (simp add: add_info_overlay_run lines c)
  have g: "?g1 30 10"
    by (simp add: sample_env_def sample_cv2_def str_def)
  have "pix (paint ?g1 black (paint ?g2 white canvas)) ! 30 ! 10 = black"
    using g l by (subst pix_paint_nth) (simp_all add: length_pix_paint_nth)
  with after before c show ?thesis
    by (simp add: add_info_overlay_run black_def)
qed

text \<open>
  C3, amended. \<open>add_status_bar\<close> has no effect beyond producing a new image: it returns
  an address that was not in use and leaves every image that existed, its input among
  them, unchanged. \<open>add_info_overlay\<close> draws the lines of the text into the input image
  itself and returns the address it was given; every other image is unchanged and no
  image is created. Neither prints nor calls a device.
\<close>

theorem renderer_effects:
  assumes "img < next_addr w"
  shows "(\<exists>r w'. add_status_bar env img status_text is_alert w = (Returns r, w') \<and>
            next_addr w \<le> r \<and> r < next_addr w' \<and>
            (\<forall>a<next_addr w. heap w' a = heap w a) \<and> trace w' = trace w) \<and>
         (\<exists>w'. add_info_overlay env img info_text w = (Returns img, w') \<and>
            heap w' img = overlay_image env 0 (split_on 10 info_text) (heap w img) \<and>
            (\<forall>a. a \<noteq> img \<longrightarrow> heap w' a = heap w a) \<and>
            next_addr w' = next_addr w \<and> trace w' = trace w)"
  using assms by (simp add: add_status_bar_run add_info_overlay_run Let_def)

theorem renderer_effects_witness:
  "0 < next_addr canvas_world \<and>
   (\<exists>r w'. add_status_bar sample_env 0 (str ''No Fire Detected'') False canvas_world
               = (Returns r, w') \<and> 1 \<le> r \<and> heap w' 0 = canvas) \<and>
   (\<exists>w'. add_info_overlay sample_env 0 (str ''A'') canvas_world = (Returns 0, w') \<and>
      heap w' 0 = overlay_image sample_env 0 (split_on 10 (str ''A'')) canvas)"
proof -
  have h: "0 < next_addr canvas_world"
    by (simp add: canvas_world_def)
  have c: "heap canvas_world 0 = canvas" "next_addr canvas_world = 1"
    by (simp_all add: canvas_world_def)
  show ?thesis
    using renderer_effects [OF h, of sample_env "str ''No Fire Detected''" False "str ''A''"] h
    by (simp add: c) blast
qed

section \<open>Which events a program can add\<close>

lemma emits_onlyD:
  "emits_only P m \<Longrightarrow> m w = (r, w') \<Longrightarrow> \<exists>es. trace w' = trace w @ es \<and> list_all P es"
  by (auto simp add: emits_only_def)

lemma emits_only_ret [simp]: "emits_only P (ret x)"
  by (simp add: emits_only_def ret_def)

lemma emits_only_lift [simp]: "emits_only P (lift r)"
  by (simp add: emits_only_def lift_def)

lemma emits_only_query [simp]: "emits_only P (query f)"
  by (auto simp add: emits_only_def query_def)

lemma emits_only_alloc [simp]: "emits_only P (alloc im)"
  by (auto simp add: emits_only_def alloc_def)

lemma emits_only_print: "P (Print s) \<Longrightarrow> emits_only P (print s)"
  by (auto simp add: emits_only_def print_def)

lemma emits_only_device: "P e \<Longrightarrow> emits_only P (device e f)"
  by (auto simp add: emits_only_def device_def)

lemma emits_only_andthen:
  assumes "emits_only P m" and "\<And>x. emits_only P (k x)"
  shows "emits_only P (andthen m k)"
  unfolding emits_only_def
proof (intro allI impI)
  fix w r w'
  assume run: "andthen m k w = (r, w')"
  obtain r1 w1 where m: "m w = (r1, w1)"
    by (cases "m w") auto
  from assms(1) m obtain es1 where e1: "trace w1 = trace w @ es1" "list_all P es1"
    by (blast dest: emits_onlyD)
  show "\<exists>es. trace w' = trace w @ es \<and> list_all P es"
  proof (cases r1)
    case (Raises e)
    with run m have "w' = w1"
      by (simp add: andthen_def)
    with e1 show ?thesis
      by blast
  next
    case (Returns x)
    with run m have "k x w1 = (r, w')"
      by (simp add: andthen_def)
    with assms(2) obtain es2 where "trace w' = trace w1 @ es2" "list_all P es2"
      by (blast dest: emits_onlyD)
    with e1 have "trace w' = trace w @ (es1 @ es2) \<and> list_all P (es1 @ es2)"
      by simp
    then show ?thesis
      by blast
  qed
qed

lemma emits_only_try_except:
  assumes "emits_only P m" and "\<And>e. emits_only P (h e)"
  shows "emits_only P (try_except m h)"
  unfolding emits_only_def
proof (intro allI impI)
  fix w r w'
  assume run: "try_except m h w = (r, w')"
  obtain r1 w1 where m: "m w = (r1, w1)"
    by (cases "m w") auto
  from assms(1) m obtain es1 where e1: "trace w1 = trace w @ es1" "list_all P es1"
    by (blast dest: emits_onlyD)
  show "\<exists>es. trace w' = trace w @ es \<and> list_all P es"
  proof (cases r1)
    case (Returns x)
    with run m have "w' = w1"
      by (simp add: try_except_def)
    with e1 show ?thesis
      by blast
  next
    case (Raises e)
    with run m have "h e w1 = (r, w')"
      by (simp add: try_except_def)
    with assms(2) obtain es2 where "trace w' = trace w1 @ es2" "list_all P es2"
      by (blast dest: emits_onlyD)
    with e1 have "trace w' = trace w @ (es1 @ es2) \<and> list_all P (es1 @ es2)"
      by simp
    then show ?thesis
      by blast
  qed
qed

lemma emits_only_add_info_overlay [simp]: "emits_only P (add_info_overlay env img info_text)"
  by (simp add: emits_only_def add_info_overlay_run)

lemma emits_only_add_status_bar [simp]:
  "emits_only P (add_status_bar env img status_text is_alert)"
  by (auto simp add: emits_only_def add_status_bar_def andthen_def shape_def alloc_def
      assign_all_def put_text_def np_vstack_def ret_def Let_def
      split: outcome.splits if_splits prod.splits)

lemma emits_only_play_alarm:
  assumes "\<And>s. P (Print s)" and "\<And>f. P (FromWaveFile f)" and "P Play" and "P WaitDone"
  shows "emits_only P (play_alarm env)"
  unfolding play_alarm_def
  by (intro emits_only_try_except emits_only_andthen emits_only_device emits_only_print assms)

lemma emits_only_imshow: "(\<And>d. P (Imshow name d)) \<Longrightarrow> emits_only P (imshow env name a)"
  by (auto simp add: emits_only_def imshow_def device_def)

lemma emits_only_detect_and_display:
  assumes "\<And>s. P (Print s)" and "\<And>f. P (FromWaveFile f)" and "P Play" and "P WaitDone"
    and "\<And>d. P (Imshow window_name d)"
  shows "emits_only P (detect_and_display env window_name info_text frame)"
  unfolding detect_and_display_def Let_def
  by (intro emits_only_andthen emits_only_lift emits_only_alloc emits_only_add_info_overlay
      emits_only_imshow assms)
    (auto intro!: emits_only_andthen emits_only_play_alarm assms)

lemma emits_only_video_iteration:
  assumes "\<And>s. P (Print s)" and "\<And>f. P (FromWaveFile f)" and "P Play" and "P WaitDone"
    and "\<And>d. P (Imshow window_name d)"
  shows "emits_only P (video_iteration env window_name fixed_path frame frame_count)"
  unfolding video_iteration_def Let_def
  by (intro emits_only_andthen emits_only_detect_and_display emits_only_query emits_only_ret assms)

lemma emits_only_video_loop:
  assumes "\<And>s. P (Print s)" and "\<And>f. P (FromWaveFile f)" and "P Play" and "P WaitDone"
    and "\<And>d. P (Imshow window_name d)"
  shows "emits_only P (video_loop env window_name fixed_path fs frame_count)"
  unfolding emits_only_def
proof (intro allI impI)
  fix w r w'
  assume "video_loop env window_name fixed_path fs frame_count w = (r, w')"
  then show "\<exists>es. trace w' = trace w @ es \<and> list_all P es"
  proof (induction fs arbitrary: frame_count w)
    case Nil
    then show ?case by simp
  next
    case (Cons f rest)
    show ?case
    proof (cases f)
      case (Raises e)
      with Cons.prems show ?thesis by simp
    next
      case (Returns frame)
      obtain r1 w1 where it:
        "video_iteration env window_name fixed_path frame (Suc frame_count) w = (r1, w1)"
        by (cases "video_iteration env window_name fixed_path frame (Suc frame_count) w") auto
      from emits_only_video_iteration [of P window_name env fixed_path frame "Suc frame_count"]
        assms it
      obtain es1 where e1: "trace w1 = trace w @ es1" "list_all P es1"
        by (blast dest: emits_onlyD)
      show ?thesis
      proof (cases r1)
        case (Raises e)
        with Cons.prems Returns it have "w' = w1" by simp
        with e1 show ?thesis by blast
      next
        case stop: (Returns stop)
        show ?thesis
        proof (cases stop)
          case True
          with Cons.prems Returns it stop have "w' = w1" by simp
          with e1 show ?thesis by blast
        next
          case False
          with Cons.prems Returns it stop
          have "video_loop env window_name fixed_path rest (Suc frame_count) w1 = (r, w')"
            by simp
          from Cons.IH [OF this] obtain es2 where
            "trace w' = trace w1 @ es2" "list_all P es2"
            by blast
          with e1 have "trace w' = trace w @ (es1 @ es2) \<and> list_all P (es1 @ es2)"
            by simp
          then show ?thesis by blast
        qed
      qed
    qed
  qed
qed

section \<open>One frame\<close>

lemma alarm_calls_append [simp]: "alarm_calls (xs @ ys) = alarm_calls xs + alarm_calls ys"
  by (simp add: alarm_calls_def)

lemma shown_append [simp]: "shown (xs @ ys) = shown xs @ shown ys"
  by (induction xs rule: shown.induct) simp_all

lemma play_alarm_run:
  "\<exists>w' es. play_alarm env w = (Returns (), w') \<and>
     trace w' = trace w @ FromWaveFile (str ''test.wav'') # es \<and>
     alarm_calls es = 0 \<and> shown es = [] \<and>
     heap w' = heap w \<and> next_addr w' = next_addr w"
  by (simp add: play_alarm_cases Let_def alarm_calls_def split: outcome.splits)

lemma detect_and_display_run:
  assumes "yolo env frame = Returns (r # rs)" and "plot r = Returns p"
  shows "detect_and_display env window_name info_text frame w =
     (let a = next_addr w;
          annotated = overlay_image env 0 (split_on 10 info_text) p;
          fire_detected = (boxes r \<noteq> []);
          bar = status_bar_spec env (cols annotated)
                  (if fire_detected then str ''FIRE/SMOKE DETECTED!'' else str ''No Fire Detected'')
                  (if fire_detected then red else green) (if fire_detected then white else black);
          display = \<lparr>rows = rows annotated + 60, cols = cols annotated,
                     pix = pix annotated @ pix bar\<rparr>;
          w1 = w\<lparr>heap := (heap w)(a := annotated, Suc a := bar, Suc (Suc a) := display),
                 next_addr := Suc (Suc (Suc a))\<rparr>;
          w2 = (if fire_detected then snd (play_alarm env w1) else w1)
      in imshow env window_name (Suc (Suc a)) w2)"
proof -
  obtain w' where "play_alarm env
      (w\<lparr>heap := (heap w)(next_addr w := overlay_image env 0 (split_on 10 info_text) p,
                Suc (next_addr w) := status_bar_spec env (cols (overlay_image env 0 (split_on 10 info_text) p)) (str ''FIRE/SMOKE DETECTED!'') red white,
                Suc (Suc (next_addr w)) := \<lparr>rows = rows (overlay_image env 0 (split_on 10 info_text) p) + 60, cols = cols (overlay_image env 0 (split_on 10 info_text) p),
                     pix = pix (overlay_image env 0 (split_on 10 info_text) p) @ pix (status_bar_spec env (cols (overlay_image env 0 (split_on 10 info_text) p)) (str ''FIRE/SMOKE DETECTED!'') red white)\<rparr>),
                 next_addr := Suc (Suc (Suc (next_addr w)))\<rparr>) = (Returns (), w')"
    using play_alarm_run by blast
  then show ?thesis
  using assms
  by (simp add: detect_and_display_def andthen_def lift_def index0_def alloc_def ret_def
      add_info_overlay_run add_status_bar_run Let_def cong: if_cong)
qed

text \<open>
  C2. A frame is in the alert state exactly when the model reports at least one box for
  it. However the processing of a frame ends, the alarm player is called at most once
  for it, and only when the model has reported a box. When the processing completes,
  exactly one frame is shown, in the window of the mode: with no box it carries the
  green \<open>No Fire Detected\<close> bar and the alarm player is not called; with one box or more
  it carries the red \<open>FIRE/SMOKE DETECTED!\<close> bar and the alarm player is called exactly
  once. This is the frame pipeline both \<open>process_image\<close> and \<open>process_video\<close> run.
\<close>

theorem alert_iff_boxes:
  assumes "detect_and_display env window_name info_text frame w = (outcome, w')"
    and "yolo env frame = Returns res"
  shows "alarm_calls (new_events w w') \<le> 1 \<and>
     (alarm_calls (new_events w w') = 1 \<longrightarrow> res \<noteq> [] \<and> boxes (hd res) \<noteq> []) \<and>
     (outcome = Returns () \<longrightarrow>
        res \<noteq> [] \<and>
        (boxes (hd res) = [] \<longrightarrow>
           alarm_calls (new_events w w') = 0 \<and>
           (\<exists>d. shown (new_events w w') = [(window_name, d)] \<and>
              status_rows d =
                pix (status_bar_spec env (cols d) (str ''No Fire Detected'') green black))) \<and>
        (boxes (hd res) \<noteq> [] \<longrightarrow>
           alarm_calls (new_events w w') = 1 \<and>
           (\<exists>d. shown (new_events w w') = [(window_name, d)] \<and>
              status_rows d =
                pix (status_bar_spec env (cols d) (str ''FIRE/SMOKE DETECTED!'') red white))))"
proof (cases res)
  case Nil
  with assms have "w' = w" and "outcome \<noteq> Returns ()"
    by (auto simp add: detect_and_display_def andthen_def lift_def index0_def)
  then show ?thesis
    by (simp add: alarm_calls_def)
next
  case (Cons r rs)
  show ?thesis
  proof (cases "plot r")
    case (Raises e)
    with assms Cons have "w' = w" and "outcome \<noteq> Returns ()"
      by (auto simp add: detect_and_display_def andthen_def lift_def index0_def Let_def)
    then show ?thesis
      by (simp add: alarm_calls_def)
  next
    case (Returns p)
    let ?a = "next_addr w"
    let ?ann = "overlay_image env 0 (split_on 10 info_text) p"
    let ?fire = "boxes r \<noteq> []"
    let ?text = "if ?fire then str ''FIRE/SMOKE DETECTED!'' else str ''No Fire Detected''"
    let ?bar = "status_bar_spec env (cols ?ann) ?text
                  (if ?fire then red else green) (if ?fire then white else black)"
    let ?d = "\<lparr>rows = rows ?ann + 60, cols = cols ?ann, pix = pix ?ann @ pix ?bar\<rparr>"
    let ?w1 = "w\<lparr>heap := (heap w)(?a := ?ann, Suc ?a := ?bar, Suc (Suc ?a) := ?d),
                 next_addr := Suc (Suc (Suc ?a))\<rparr>"
    let ?w2 = "if ?fire then snd (play_alarm env ?w1) else ?w1"
    from assms(2) Cons have y: "yolo env frame = Returns (r # rs)"
      by simp
    have run: "detect_and_display env window_name info_text frame w
                 = imshow env window_name (Suc (Suc ?a)) ?w2"
      using detect_and_display_run [OF y Returns, of window_name info_text w]
      by (simp only: Let_def)
    obtain es where
      es: "trace ?w2 = trace w @ (if ?fire then FromWaveFile (str ''test.wav'') # es else [])"
      and quiet: "alarm_calls es = 0" "shown es = []"
      and hp: "heap ?w2 = heap ?w1"
    proof (cases ?fire)
      case True
      obtain w'' es where "play_alarm env ?w1 = (Returns (), w'')"
        and "trace w'' = trace ?w1 @ FromWaveFile (str ''test.wav'') # es"
        and "alarm_calls es = 0" "shown es = []" "heap w'' = heap ?w1"
        using play_alarm_run [of env ?w1] by blast
      with True that [of es] show ?thesis
        by simp
    next
      case False
      with that [of "[]"] show ?thesis
        by (simp add: alarm_calls_def)
    qed
    from assms(1) run have "imshow env window_name (Suc (Suc ?a)) ?w2 = (outcome, w')"
      by simp
    then have "trace w' = trace ?w2 @ [Imshow window_name (heap ?w2 (Suc (Suc ?a)))]"
      by (auto simp add: imshow_def device_def)
    with es hp have tr: "trace w' =
        trace w @ (if ?fire then FromWaveFile (str ''test.wav'') # es else [])
          @ [Imshow window_name ?d]"
      by simp
    have ev: "new_events w w' =
        (if ?fire then FromWaveFile (str ''test.wav'') # es else []) @ [Imshow window_name ?d]"
      using tr by (simp add: new_events_def)
    have sr: "status_rows ?d = pix ?bar"
      by (simp add: status_rows_def)
    have cd: "cols ?d = cols ?ann"
      by simp
    have calls: "alarm_calls (new_events w w') = (if ?fire then 1 else 0)"
      using quiet by (simp add: ev) (simp add: alarm_calls_def)
    have sh: "shown (new_events w w') = [(window_name, ?d)]"
      using quiet by (simp add: ev)
    have bar: "status_rows ?d = pix (status_bar_spec env (cols ?d) ?text
                  (if ?fire then red else green) (if ?fire then white else black))"
      by (simp only: sr cd)
    show ?thesis
    proof (cases ?fire)
      case True
      with calls sh bar Cons show ?thesis
        by (simp del: status_bar_spec_shape)
    next
      case False
      with calls sh bar Cons show ?thesis
        by (simp del: status_bar_spec_shape)
    qed
  qed
qed

lemma sample_yolo_flame:
  "yolo sample_env flame = Returns [\<lparr>boxes = [(0, 0, 1, 1)], plot = Returns flame\<rparr>]"
  by (simp add: sample_env_def sample_yolo_def flame_def dark_def)

lemma sample_yolo_dark:
  "yolo sample_env dark = Returns [\<lparr>boxes = [], plot = Returns dark\<rparr>]"
  by (simp add: sample_env_def sample_yolo_def)

lemma frame_completes:
  assumes "imshow_dev (cv2 env) = (\<lambda>t. Returns ())"
    and "yolo env frame = Returns [r]" and "plot r = Returns p"
  shows "fst (detect_and_display env window_name info_text frame w) = Returns ()"
  using assms by (simp add: detect_and_display_run Let_def imshow_def device_def)

lemma sample_env_simps:
  "os sample_env = sample_os"
  "named_window (cv2 sample_env) = (\<lambda>t. Returns ())"
  "resize_window (cv2 sample_env) = (\<lambda>t. Returns ())"
  "imshow_dev (cv2 sample_env) = (\<lambda>t. Returns ())"
  "imread (cv2 sample_env) q t = Returns None"
  by (simp_all add: sample_env_def sample_cv2_def)

theorem alert_iff_boxes_witness:
  "fst (detect_and_display sample_env default_window_name (str ''File: fire.jpg'') flame world0)
     = Returns () \<and>
   yolo sample_env flame = Returns [\<lparr>boxes = [(0, 0, 1, 1)], plot = Returns flame\<rparr>] \<and>
   alarm_calls (new_events world0
     (snd (detect_and_display sample_env default_window_name (str ''File: fire.jpg'') flame world0)))
     = 1"
proof -
  let ?run = "detect_and_display sample_env default_window_name (str ''File: fire.jpg'') flame world0"
  have f: "fst ?run = Returns ()"
    by (rule frame_completes [OF _ sample_yolo_flame]) (simp_all add: sample_env_simps)
  then have h: "?run = (Returns (), snd ?run)"
    by (simp add: prod_eq_iff)
  show ?thesis
    using alert_iff_boxes [OF h sample_yolo_flame] f sample_yolo_flame
    by simp
qed

section \<open>The modes\<close>

lemma emits_only_if:
  "emits_only P a \<Longrightarrow> emits_only P b \<Longrightarrow> emits_only P (if c then a else b)"
  by simp

lemma emits_only_create_window:
  assumes "P (NamedWindow name)" and "P (ResizeWindow name width height)"
  shows "emits_only P (create_window env name width height)"
  unfolding create_window_def
  by (intro emits_only_andthen emits_only_device emits_only_ret assms)

lemma create_window_returns:
  assumes "create_window env name width height w = (Returns window_name, w')"
  shows "window_name = name \<and>
     w' = (emit (ResizeWindow name width height)
            ((emit (NamedWindow name) w)\<lparr>ticks := Suc (ticks w)\<rparr>))\<lparr>ticks := Suc (Suc (ticks w))\<rparr>"
  using assms
  by (auto simp add: create_window_def andthen_def device_def ret_def split: outcome.splits)

lemma check_permission_accepts:
  assumes "check_permission env path w = (Returns (True, p), w')"
  shows "\<exists>fixed_path. p = Some fixed_path \<and>
     w' = emit (Print (str ''Trying to access: '' @ fixed_path)) w"
  using assms
  by (auto simp add: check_permission_cases Let_def split: outcome.splits if_splits)

lemma check_permission_rejects:
  assumes "check_permission env path w = (Returns (False, p), w')"
  shows "\<exists>es. trace w' = trace w @ es \<and> list_all (\<lambda>e. \<exists>s. e = Print s) es"
  using assms
  by (auto simp add: check_permission_cases Let_def split: outcome.splits if_splits)

lemma process_video_opened:
  assumes "check_permission env path w = (Returns (True, Some fixed_path), w1)"
    and "create_window env default_window_name 1280 720 w1 = (Returns window_name, w2)"
    and "video_capture (cv2 env) fixed_path (ticks w2) = Returns cap"
  shows "process_video env path w =
     (let w3 = (emit (VideoCapture fixed_path) w2)\<lparr>ticks := Suc (ticks w2)\<rparr>;
          handler = (\<lambda>e. emit (Print (str ''Error processing video: '' @ message e)))
      in if \<not> is_opened cap
         then (Returns (),
               emit (Print (str ''Error: Unable to open video from '' @ fixed_path)) w3)
         else
           (case video_loop env window_name fixed_path (frames cap) 0 w3 of
              (Raises e, w4) \<Rightarrow> (Returns (), handler e w4)
            | (Returns _, w4) \<Rightarrow>
                (let w5 = (emit Release w4)\<lparr>ticks := Suc (ticks w4)\<rparr> in
                 case cap_release (cv2 env) (ticks w4) of
                   Raises e \<Rightarrow> (Returns (), handler e w5)
                 | Returns _ \<Rightarrow>
                     (let w6 = (emit DestroyAllWindows w5)\<lparr>ticks := Suc (Suc (ticks w4))\<rparr> in
                      case destroy_all_windows (cv2 env) (Suc (ticks w4)) of
                        Raises e \<Rightarrow> (Returns (), handler e w6)
                      | Returns _ \<Rightarrow> (Returns (), w6)))))"
  using assms
  by (simp add: process_video_def andthen_def try_except_def lift_def filename_arg_def
      device_def print_def Let_def split: outcome.splits prod.splits)

lemma sample_paths:
  assumes "os env = sample_os"
  shows "fix_path env (str ''fire.mp4'') = Returns (str ''/work/fire.mp4'')"
    and "fix_path env (str ''fire.jpg'') = Returns (str ''/work/fire.jpg'')"
    and "path_exists (os env) (str ''/work/fire.mp4'') = Returns True"
    and "path_exists (os env) (str ''/work/fire.jpg'') = Returns True"
    and "access_read (os env) p = Returns True"
  using assms
  by (simp_all add: path_eval)

lemma sample_validation:
  assumes "os env = sample_os"
  shows "check_permission env (str ''fire.mp4'') world0
           = (Returns (True, Some (str ''/work/fire.mp4'')), validated (str ''/work/fire.mp4''))"
    and "check_permission env (str ''fire.jpg'') world0
           = (Returns (True, Some (str ''/work/fire.jpg'')), validated (str ''/work/fire.jpg''))"
  by (simp_all add: check_permission_cases sample_paths [OF assms] validated_def Let_def)

lemma sample_window:
  assumes "named_window (cv2 env) = (\<lambda>t. Returns ())"
    and "resize_window (cv2 env) = (\<lambda>t. Returns ())"
  shows "create_window env default_window_name 1280 720 (validated p)
           = (Returns default_window_name, windowed p)"
  using assms
  by (simp add: create_window_def andthen_def device_def ret_def windowed_def validated_def
      world0_def emit_def)

lemma one_frame_env_simps:
  "os one_frame_env = sample_os"
  "named_window (cv2 one_frame_env) = (\<lambda>t. Returns ())"
  "resize_window (cv2 one_frame_env) = (\<lambda>t. Returns ())"
  "imshow_dev (cv2 one_frame_env) = (\<lambda>t. Returns ())"
  "wait_key (cv2 one_frame_env) = (\<lambda>t. Returns (- 1))"
  "cap_release (cv2 one_frame_env) = (\<lambda>t. Returns ())"
  "destroy_all_windows (cv2 one_frame_env) = (\<lambda>t. Returns ())"
  "video_capture (cv2 one_frame_env) p t = Returns \<lparr>is_opened = True, frames = [Returns dark]\<rparr>"
  "yolo one_frame_env = sample_yolo"
  by (simp_all add: one_frame_env_def one_frame_cv2_def sample_env_def sample_cv2_def)

lemma failing_detector_env_simps:
  "os failing_detector_env = sample_os"
  "cv2 failing_detector_env = cv2 one_frame_env"
  "yolo failing_detector_env frame = Raises (Error (str ''inference failed''))"
  by (simp_all add: failing_detector_env_def one_frame_env_def sample_env_def)

text \<open>
  C1, amended. Once the path is validated, the window created and the capture opened,
  \<open>process_video\<close> always returns normally, and nothing is released while the frame
  loop runs. When the loop ends without an exception (the source has no more frames, or
  the escape key was read), the release of the capture is the next action, and the
  destruction of the windows follows it when the release returns. When an exception
  raised in the loop is caught by the handler of the mode, the function returns without
  releasing the capture or destroying the window.
\<close>

theorem process_video_cleanup:
  assumes "check_permission env path w = (Returns (True, Some fixed_path), w1)"
    and "create_window env default_window_name 1280 720 w1 = (Returns window_name, w2)"
    and "video_capture (cv2 env) fixed_path (ticks w2) = Returns cap"
    and "is_opened cap"
    and "video_loop env window_name fixed_path (frames cap) 0
           ((emit (VideoCapture fixed_path) w2)\<lparr>ticks := Suc (ticks w2)\<rparr>) = (lr, w4)"
  shows "\<exists>w'. process_video env path w = (Returns (), w') \<and>
     list_all (\<lambda>e. \<not> is_cleanup e) (new_events w w4) \<and>
     (lr = Returns () \<longrightarrow>
        (\<exists>es. new_events w w' = new_events w w4 @ Release # es) \<and>
        (cap_release (cv2 env) (ticks w4) = Returns () \<longrightarrow>
           (\<exists>es. new_events w w' = new_events w w4 @ Release # DestroyAllWindows # es))) \<and>
     ((\<exists>e. lr = Raises e) \<longrightarrow> list_all (\<lambda>e. \<not> is_cleanup e) (new_events w w'))"
proof -
  let ?P = "\<lambda>e. \<not> is_cleanup e"
  let ?w3 = "(emit (VideoCapture fixed_path) w2)\<lparr>ticks := Suc (ticks w2)\<rparr>"
  let ?err = "\<lambda>e. Print (str ''Error processing video: '' @ message e)"
  let ?pre = "[Print (str ''Trying to access: '' @ fixed_path), NamedWindow default_window_name,
               ResizeWindow default_window_name 1280 720, VideoCapture fixed_path]"
  note True = assms(4)
  from assms(1) have t1: "trace w1 = trace w @ [Print (str ''Trying to access: '' @ fixed_path)]"
    by (auto dest: check_permission_accepts)
  from assms(2) have t2: "trace w2 = trace w1 @
      [NamedWindow default_window_name, ResizeWindow default_window_name 1280 720]"
    by (auto dest: create_window_returns)
  from t1 t2 have t3: "trace ?w3 = trace w @ ?pre"
    by simp
  have "emits_only ?P (video_loop env window_name fixed_path (frames cap) 0)"
    by (rule emits_only_video_loop) simp_all
  with assms(5) obtain es where es: "trace w4 = trace ?w3 @ es" "list_all ?P es"
    by (blast dest: emits_onlyD)
  from t3 es have t4: "trace w4 = trace w @ (?pre @ es)"
    by simp
  then have n4: "new_events w w4 = ?pre @ es"
    by (rule new_events_append)
  with es have q4: "list_all ?P (new_events w w4)"
    by simp
  note run = process_video_opened [OF assms(1) assms(2) assms(3)]
  show ?thesis
  proof (cases lr)
    case (Raises e)
    let ?w' = "emit (?err e) w4"
    from True Raises run assms(5) have r: "process_video env path w = (Returns (), ?w')"
      by (simp add: Let_def)
    have "trace ?w' = trace w @ (?pre @ es @ [?err e])"
      using t4 by simp
    then have "new_events w ?w' = ?pre @ es @ [?err e]"
      by (rule new_events_append)
    with es have "list_all ?P (new_events w ?w')"
      by simp
    with r q4 Raises show ?thesis
      by blast
  next
    case (Returns u)
    let ?w5 = "(emit Release w4)\<lparr>ticks := Suc (ticks w4)\<rparr>"
    let ?w6 = "(emit DestroyAllWindows ?w5)\<lparr>ticks := Suc (Suc (ticks w4))\<rparr>"
    have t5: "trace ?w5 = trace w @ ((?pre @ es) @ [Release])"
      using t4 by simp
    have t6: "trace ?w6 = trace w @ ((?pre @ es) @ [Release, DestroyAllWindows])"
      using t4 by simp
    from Returns have noexc: "\<not> (\<exists>e. lr = Raises e)"
      by simp
    show ?thesis
    proof (cases "cap_release (cv2 env) (ticks w4)")
      case rel: (Raises e)
      let ?w' = "emit (?err e) ?w5"
      from True Returns rel run assms(5)
      have r: "process_video env path w = (Returns (), ?w')"
        by (simp add: Let_def)
      have "trace ?w' = trace w @ ((?pre @ es) @ Release # [?err e])"
        using t5 by simp
      then have "new_events w ?w' = (?pre @ es) @ Release # [?err e]"
        by (rule new_events_append)
      then have n: "new_events w ?w' = new_events w w4 @ Release # [?err e]"
        by (simp only: n4)
      then have "\<exists>es. new_events w ?w' = new_events w w4 @ Release # es"
        by (rule exI)
      moreover from rel have "cap_release (cv2 env) (ticks w4) \<noteq> Returns ()"
        by simp
      ultimately show ?thesis
        using r q4 noexc by blast
    next
      case rel: (Returns u')
      show ?thesis
      proof (cases "destroy_all_windows (cv2 env) (Suc (ticks w4))")
        case (Raises e)
        let ?w' = "emit (?err e) ?w6"
        from True Returns rel Raises run assms(5)
        have r: "process_video env path w = (Returns (), ?w')"
          by (simp add: Let_def)
        have "trace ?w' = trace w @ ((?pre @ es) @ Release # DestroyAllWindows # [?err e])"
          using t6 by simp
        then have "new_events w ?w' = (?pre @ es) @ Release # DestroyAllWindows # [?err e]"
          by (rule new_events_append)
        then have n: "new_events w ?w' = new_events w w4 @ Release # DestroyAllWindows # [?err e]"
          by (simp only: n4)
        then have "\<exists>es. new_events w ?w' = new_events w w4 @ Release # es"
          by (rule exI)
        moreover from n have
          "\<exists>es. new_events w ?w' = new_events w w4 @ Release # DestroyAllWindows # es"
          by (rule exI)
        ultimately show ?thesis
          using r q4 noexc by blast
      next
        case des: (Returns u'')
        from True Returns rel des run assms(5)
        have r: "process_video env path w = (Returns (), ?w6)"
          by (simp add: Let_def)
        have "new_events w ?w6 = (?pre @ es) @ Release # DestroyAllWindows # []"
          using t6 by (intro new_events_append) simp
        then have n: "new_events w ?w6 = new_events w w4 @ Release # DestroyAllWindows # []"
          by (simp only: n4)
        then have "\<exists>es. new_events w ?w6 = new_events w w4 @ Release # es"
          by (rule exI)
        moreover from n have
          "\<exists>es. new_events w ?w6 = new_events w w4 @ Release # DestroyAllWindows # es"
          by (rule exI)
        ultimately show ?thesis
          using r q4 noexc by blast
      qed
    qed
  qed
qed

text \<open>
  C1 as stated fails: with a detector that raises on the first frame, \<open>process_video\<close>
  opens the capture, the handler prints the error, and the function returns; the trace
  ends there, with no release of the capture and no destruction of the window.
\<close>

theorem process_video_error_skips_cleanup:
  "process_video failing_detector_env (str ''fire.mp4'') world0 =
     (Returns (),
      emit (Print (str ''Error processing video: '' @ str ''inference failed''))
        (opened (str ''/work/fire.mp4''))) \<and>
   trace (emit (Print (str ''Error processing video: '' @ str ''inference failed''))
        (opened (str ''/work/fire.mp4''))) =
     [Print (str ''Trying to access: '' @ str ''/work/fire.mp4''),
      NamedWindow default_window_name,
      ResizeWindow default_window_name 1280 720,
      VideoCapture (str ''/work/fire.mp4''),
      Print (str ''Error processing video: '' @ str ''inference failed'')] \<and>
   Release \<notin> set (trace (snd (process_video failing_detector_env (str ''fire.mp4'') world0))) \<and>
   DestroyAllWindows
     \<notin> set (trace (snd (process_video failing_detector_env (str ''fire.mp4'') world0)))"
proof -
  let ?fp = "str ''/work/fire.mp4''"
  have v: "check_permission failing_detector_env (str ''fire.mp4'') world0
             = (Returns (True, Some ?fp), validated ?fp)"
    by (rule sample_validation) (rule failing_detector_env_simps)
  have c: "create_window failing_detector_env default_window_name 1280 720 (validated ?fp)
             = (Returns default_window_name, windowed ?fp)"
    by (rule sample_window) (simp_all add: failing_detector_env_simps one_frame_env_simps)
  have o: "video_capture (cv2 failing_detector_env) ?fp (ticks (windowed ?fp))
             = Returns \<lparr>is_opened = True, frames = [Returns dark]\<rparr>"
    by (simp add: failing_detector_env_simps one_frame_env_simps)
  have w3: "(emit (VideoCapture ?fp) (windowed ?fp))\<lparr>ticks := Suc (ticks (windowed ?fp))\<rparr>
              = opened ?fp"
    by (simp add: opened_def windowed_def)
  have l: "video_loop failing_detector_env default_window_name ?fp [Returns dark] 0 (opened ?fp)
             = (Raises (Error (str ''inference failed'')), opened ?fp)"
    by (simp add: video_iteration_def detect_and_display_def andthen_def lift_def Let_def
        failing_detector_env_simps)
  have run: "process_video failing_detector_env (str ''fire.mp4'') world0 =
     (Returns (),
      emit (Print (str ''Error processing video: '' @ str ''inference failed'')) (opened ?fp))"
    by (simp add: process_video_opened [OF v c o] Let_def w3 l del: video_loop.simps)
  have tr: "trace (emit (Print (str ''Error processing video: '' @ str ''inference failed''))
        (opened ?fp)) =
     [Print (str ''Trying to access: '' @ ?fp), NamedWindow default_window_name,
      ResizeWindow default_window_name 1280 720, VideoCapture ?fp,
      Print (str ''Error processing video: '' @ str ''inference failed'')]"
    by (simp add: opened_def windowed_def validated_def world0_def)
  from run tr show ?thesis
    by simp
qed

lemma video_iteration_continues:
  assumes "imshow_dev (cv2 env) = (\<lambda>t. Returns ())"
    and "yolo env frame = Returns [r]" and "plot r = Returns p"
    and "wait_key (cv2 env) = (\<lambda>t. Returns (- 1))"
  shows "fst (video_iteration env window_name fixed_path frame n w) = Returns False"
proof -
  let ?info = "str ''File: '' @ basename (os env) fixed_path @ [10] @
               str ''Frame: '' @ dec n @ [10] @
               str ''Press '' @ [39] @ str ''ESC'' @ [39] @ str '' to exit''"
  have "fst (detect_and_display env window_name ?info frame w) = Returns ()"
    using assms(1-3) by (rule frame_completes)
  then obtain w1 where "detect_and_display env window_name ?info frame w = (Returns (), w1)"
    by (cases "detect_and_display env window_name ?info frame w") simp
  then show ?thesis
    using assms(4) by (simp add: video_iteration_def Let_def andthen_def query_def ret_def)
qed

lemma one_frame_loop_ends:
  "fst (video_loop one_frame_env window_name fixed_path [Returns dark] 0 w) = Returns ()"
proof -
  have y: "yolo one_frame_env dark = Returns [\<lparr>boxes = [], plot = Returns dark\<rparr>]"
    by (simp add: one_frame_env_simps sample_yolo_def)
  have p: "plot \<lparr>boxes = [], plot = Returns dark\<rparr> = Returns dark"
    by simp
  have "fst (video_iteration one_frame_env window_name fixed_path dark (Suc 0) w)
               = Returns False"
    by (rule video_iteration_continues [OF _ y p]) (simp_all add: one_frame_env_simps)
  then obtain w1 where
    "video_iteration one_frame_env window_name fixed_path dark (Suc 0) w = (Returns False, w1)"
    by (cases "video_iteration one_frame_env window_name fixed_path dark (Suc 0) w") simp
  then show ?thesis
    by simp
qed

theorem process_video_cleanup_witness:
  "check_permission one_frame_env (str ''fire.mp4'') world0
     = (Returns (True, Some (str ''/work/fire.mp4'')), validated (str ''/work/fire.mp4'')) \<and>
   create_window one_frame_env default_window_name 1280 720 (validated (str ''/work/fire.mp4''))
     = (Returns default_window_name, windowed (str ''/work/fire.mp4'')) \<and>
   video_capture (cv2 one_frame_env) (str ''/work/fire.mp4'')
       (ticks (windowed (str ''/work/fire.mp4'')))
     = Returns \<lparr>is_opened = True, frames = [Returns dark]\<rparr> \<and>
   is_opened \<lparr>is_opened = True, frames = [Returns dark]\<rparr> \<and>
   fst (video_loop one_frame_env default_window_name (str ''/work/fire.mp4'') [Returns dark] 0
          (opened (str ''/work/fire.mp4''))) = Returns () \<and>
   (\<exists>w' es. process_video one_frame_env (str ''fire.mp4'') world0 = (Returns (), w') \<and>
      new_events world0 w' =
        new_events world0
          (snd (video_loop one_frame_env default_window_name (str ''/work/fire.mp4'')
                  [Returns dark] 0 (opened (str ''/work/fire.mp4''))))
        @ Release # DestroyAllWindows # es)"
proof -
  let ?fp = "str ''/work/fire.mp4''"
  let ?cap = "\<lparr>is_opened = True, frames = [Returns dark]\<rparr>"
  let ?loop = "video_loop one_frame_env default_window_name ?fp [Returns dark] 0 (opened ?fp)"
  have v: "check_permission one_frame_env (str ''fire.mp4'') world0
             = (Returns (True, Some ?fp), validated ?fp)"
    by (rule sample_validation) (rule one_frame_env_simps)
  have c: "create_window one_frame_env default_window_name 1280 720 (validated ?fp)
             = (Returns default_window_name, windowed ?fp)"
    by (rule sample_window) (simp_all add: one_frame_env_simps)
  have o: "video_capture (cv2 one_frame_env) ?fp (ticks (windowed ?fp)) = Returns ?cap"
    by (simp add: one_frame_env_simps)
  have w3: "(emit (VideoCapture ?fp) (windowed ?fp))\<lparr>ticks := Suc (ticks (windowed ?fp))\<rparr>
              = opened ?fp"
    by (simp add: opened_def windowed_def)
  have f: "fst ?loop = Returns ()"
    by (rule one_frame_loop_ends)
  have l: "video_loop one_frame_env default_window_name ?fp (frames ?cap) 0
             ((emit (VideoCapture ?fp) (windowed ?fp))\<lparr>ticks := Suc (ticks (windowed ?fp))\<rparr>)
           = (Returns (), snd ?loop)"
    using f by (simp add: w3 prod_eq_iff del: video_loop.simps)
  have rel: "cap_release (cv2 one_frame_env) (ticks (snd ?loop)) = Returns ()"
    by (simp add: one_frame_env_simps)
  have op: "is_opened ?cap"
    by simp
  from process_video_cleanup [OF v c o op l] rel
  have "\<exists>w' es. process_video one_frame_env (str ''fire.mp4'') world0 = (Returns (), w') \<and>
      new_events world0 w' = new_events world0 (snd ?loop) @ Release # DestroyAllWindows # es"
    by auto
  with v c o op f show ?thesis
    by blast
qed

lemma process_image_undecodable:
  assumes "check_permission env path w = (Returns (True, Some fixed_path), w1)"
    and "create_window env default_window_name 1280 720 w1 = (Returns window_name, w2)"
    and "imread (cv2 env) fixed_path (ticks w2) = Returns None"
  shows "\<exists>w'. process_image env path w = Some (Returns (), w') \<and>
     new_events w w' =
       [Print (str ''Trying to access: '' @ fixed_path),
        NamedWindow default_window_name,
        ResizeWindow default_window_name 1280 720,
        Print (str ''Loading image from: '' @ fixed_path),
        Print (str ''Error: Unable to load image from '' @ fixed_path)]"
proof -
  from assms(1) have w1: "w1 = emit (Print (str ''Trying to access: '' @ fixed_path)) w"
    by (auto dest: check_permission_accepts)
  from assms(2) have w2: "trace w2 = trace w1 @
      [NamedWindow default_window_name, ResizeWindow default_window_name 1280 720]"
    by (auto dest: create_window_returns)
  let ?w3 = "emit (Print (str ''Error: Unable to load image from '' @ fixed_path))
               ((emit (Print (str ''Loading image from: '' @ fixed_path)) w2)
                  \<lparr>ticks := Suc (ticks w2)\<rparr>)"
  from assms(3) have ld: "load_and_display env window_name (Some fixed_path) w2 = (Returns False, ?w3)"
    by (simp add: load_and_display_def andthen_def print_def lift_def filename_arg_def
        format_path_def query_def ret_def)
  from assms(1) assms(2) ld have "process_image env path w = Some (Returns (), ?w3)"
    by (simp add: process_image_def Let_def)
  moreover have "new_events w ?w3 =
       [Print (str ''Trying to access: '' @ fixed_path),
        NamedWindow default_window_name,
        ResizeWindow default_window_name 1280 720,
        Print (str ''Loading image from: '' @ fixed_path),
        Print (str ''Error: Unable to load image from '' @ fixed_path)]"
    by (rule new_events_append) (simp add: w1 w2)
  ultimately show ?thesis
    by blast
qed

lemma process_image_rejected:
  assumes "check_permission env path w = (Returns (False, p), w1)"
  shows "process_image env path w = Some (Returns (), w1) \<and>
     (\<forall>name. NamedWindow name \<notin> set (new_events w w1))"
proof -
  from assms obtain es where es: "trace w1 = trace w @ es" "list_all (\<lambda>e. \<exists>s. e = Print s) es"
    by (blast dest: check_permission_rejects)
  from es(1) have "new_events w w1 = es"
    by (rule new_events_append)
  with es(2) have "\<forall>name. NamedWindow name \<notin> set (new_events w w1)"
    by (auto simp add: list_all_iff)
  moreover from assms have "process_image env path w = Some (Returns (), w1)"
    by (simp add: process_image_def Let_def)
  ultimately show ?thesis
    by simp
qed

text \<open>
  C10. In image mode the window is created before the image is decoded. When the path
  passes validation and \<open>cv2.imread\<close> returns no image, \<open>process_image\<close> prints the error
  and returns: the trace of the run holds the creation of the window and no destruction
  of it. When validation fails, \<open>process_image\<close> returns at once and no window is
  created.
\<close>

theorem undecodable_image_leaves_window:
  "(check_permission env path w = (Returns (True, Some fixed_path), w1) \<longrightarrow>
    create_window env default_window_name 1280 720 w1 = (Returns window_name, w2) \<longrightarrow>
    imread (cv2 env) fixed_path (ticks w2) = Returns None \<longrightarrow>
      (\<exists>w'. process_image env path w = Some (Returns (), w') \<and>
         new_events w w' =
           [Print (str ''Trying to access: '' @ fixed_path),
            NamedWindow default_window_name,
            ResizeWindow default_window_name 1280 720,
            Print (str ''Loading image from: '' @ fixed_path),
            Print (str ''Error: Unable to load image from '' @ fixed_path)] \<and>
         NamedWindow default_window_name \<in> set (new_events w w') \<and>
         DestroyAllWindows \<notin> set (new_events w w'))) \<and>
   (check_permission env path w = (Returns (False, p), v1) \<longrightarrow>
      process_image env path w = Some (Returns (), v1) \<and>
      (\<forall>name. NamedWindow name \<notin> set (new_events w v1)))"
proof (intro conjI impI)
  assume "check_permission env path w = (Returns (True, Some fixed_path), w1)"
    and "create_window env default_window_name 1280 720 w1 = (Returns window_name, w2)"
    and "imread (cv2 env) fixed_path (ticks w2) = Returns None"
  then obtain w' where "process_image env path w = Some (Returns (), w')"
    and n: "new_events w w' =
       [Print (str ''Trying to access: '' @ fixed_path),
        NamedWindow default_window_name,
        ResizeWindow default_window_name 1280 720,
        Print (str ''Loading image from: '' @ fixed_path),
        Print (str ''Error: Unable to load image from '' @ fixed_path)]"
    using process_image_undecodable by blast
  moreover from n have "NamedWindow default_window_name \<in> set (new_events w w')"
    and "DestroyAllWindows \<notin> set (new_events w w')"
    by simp_all
  ultimately show "\<exists>w'. process_image env path w = Some (Returns (), w') \<and>
         new_events w w' =
           [Print (str ''Trying to access: '' @ fixed_path),
            NamedWindow default_window_name,
            ResizeWindow default_window_name 1280 720,
            Print (str ''Loading image from: '' @ fixed_path),
            Print (str ''Error: Unable to load image from '' @ fixed_path)] \<and>
         NamedWindow default_window_name \<in> set (new_events w w') \<and>
         DestroyAllWindows \<notin> set (new_events w w')"
    by blast
next
  assume "check_permission env path w = (Returns (False, p), v1)"
  then show "process_image env path w = Some (Returns (), v1)"
    by (simp add: process_image_rejected)
next
  assume "check_permission env path w = (Returns (False, p), v1)"
  then show "\<forall>name. NamedWindow name \<notin> set (new_events w v1)"
    by (simp add: process_image_rejected)
qed

theorem undecodable_image_leaves_window_witness:
  "check_permission sample_env (str ''fire.jpg'') world0
     = (Returns (True, Some (str ''/work/fire.jpg'')), validated (str ''/work/fire.jpg'')) \<and>
   create_window sample_env default_window_name 1280 720 (validated (str ''/work/fire.jpg''))
     = (Returns default_window_name, windowed (str ''/work/fire.jpg'')) \<and>
   imread (cv2 sample_env) (str ''/work/fire.jpg'') (ticks (windowed (str ''/work/fire.jpg'')))
     = Returns None \<and>
   (\<exists>w'. process_image sample_env (str ''fire.jpg'') world0 = Some (Returns (), w') \<and>
      new_events world0 w' =
        [Print (str ''Trying to access: '' @ str ''/work/fire.jpg''),
         NamedWindow default_window_name,
         ResizeWindow default_window_name 1280 720,
         Print (str ''Loading image from: '' @ str ''/work/fire.jpg''),
         Print (str ''Error: Unable to load image from '' @ str ''/work/fire.jpg'')])"
proof -
  let ?fp = "str ''/work/fire.jpg''"
  have v: "check_permission sample_env (str ''fire.jpg'') world0
             = (Returns (True, Some ?fp), validated ?fp)"
    by (rule sample_validation) (rule sample_env_simps)
  have c: "create_window sample_env default_window_name 1280 720 (validated ?fp)
             = (Returns default_window_name, windowed ?fp)"
    by (rule sample_window) (simp_all add: sample_env_simps)
  have d: "imread (cv2 sample_env) ?fp (ticks (windowed ?fp)) = Returns None"
    by (rule sample_env_simps)
  from undecodable_image_leaves_window
         [of sample_env "str ''fire.jpg''" world0 ?fp "validated ?fp" default_window_name
            "windowed ?fp"]
       v c d
  show ?thesis
    by blast
qed
end
